theory Spec2Isabelle
  imports Complex_Main
begin

section \<open>Tensors, errors and dictionaries\<close>

text \<open>
  The three task classes of \<^verbatim>\<open>isaacgymenvs/tasks\<close> (\<^verbatim>\<open>FrankaCubePush\<close>,
  \<^verbatim>\<open>FrankaCubeSlide\<close>, \<^verbatim>\<open>FrankaCubeThrow\<close>) work on batched tensors whose
  first dimension is the environment. A tensor of shape \<open>(num_envs)\<close> is a list with
  one entry per environment, a tensor of shape \<open>(num_envs, k)\<close> a list of rows.
  Rows of fixed width 3 and 4 (positions, velocities, quaternions, all produced by
  constant slices such as \<^verbatim>\<open>[:, :3]\<close>) are tuples. Tensor elements are real numbers:
  rounding, infinities and not-a-number values of the float32 arithmetic are outside
  the model. The integer buffers \<^verbatim>\<open>progress_buf\<close> and \<^verbatim>\<open>reset_buf\<close> hold
  integers; a reset flag is set when its entry is not zero.
\<close>

type_synonym vec3 = "real \<times> real \<times> real"

type_synonym quat = "real \<times> real \<times> real \<times> real"

datatype error =
    KeyError string
  | ValueError
  | IndexError
  | ShapeError

definition getitem :: "(string \<rightharpoonup> real) \<Rightarrow> string \<Rightarrow> error + real" where
  "getitem d k = (case d k of None \<Rightarrow> Inl (KeyError k) | Some v \<Rightarrow> Inr v)"

fun vsub :: "vec3 \<Rightarrow> vec3 \<Rightarrow> vec3" where
  "vsub (a1, a2, a3) (b1, b2, b3) = (a1 - b1, a2 - b2, a3 - b3)"

fun vdot :: "vec3 \<Rightarrow> vec3 \<Rightarrow> real" where
  "vdot (a1, a2, a3) (b1, b2, b3) = a1 * b1 + a2 * b2 + a3 * b3"

fun vnorm :: "vec3 \<Rightarrow> real" where
  "vnorm (a1, a2, a3) = sqrt (a1 * a1 + a2 * a2 + a3 * a3)"

fun vec3_list :: "vec3 \<Rightarrow> real list" where
  "vec3_list (a1, a2, a3) = [a1, a2, a3]"

fun quat_list :: "quat \<Rightarrow> real list" where
  "quat_list (x, y, z, w) = [x, y, z, w]"

fun vdiv :: "vec3 \<Rightarrow> real \<Rightarrow> vec3" where
  "vdiv (a1, a2, a3) c = (a1 / c, a2 / c, a3 / c)"

fun qnorm :: "quat \<Rightarrow> real" where
  "qnorm (x, y, z, w) = sqrt (x * x + y * y + z * z + w * w)"

text \<open>
  Indexed assignment \<^verbatim>\<open>buf[env_ids] = v\<close> and \<^verbatim>\<open>buf[env_ids, :] = rows\<close>
  (row \<open>k\<close> of the right-hand side goes to index \<open>env_ids[k]\<close>). An index outside
  the buffer raises; the methods below check the indices before they write.
\<close>

definition index_put :: "nat list \<Rightarrow> 'a \<Rightarrow> 'a list \<Rightarrow> 'a list" where
  "index_put env_ids v buf = fold (\<lambda>i b. b[i := v]) env_ids buf"

definition index_put_rows :: "nat list \<Rightarrow> 'a list \<Rightarrow> 'a list \<Rightarrow> 'a list" where
  "index_put_rows env_ids rows buf = fold (\<lambda>(i, r) b. b[i := r]) (zip env_ids rows) buf"

definition nonzero :: "int list \<Rightarrow> nat list" where
  "nonzero buf = filter (\<lambda>i. buf ! i \<noteq> 0) [0..<length buf]"

section \<open>Task state\<close>

text \<open>
  One row of the tensors held in the dictionary \<^verbatim>\<open>self.states\<close> that the reward
  and history code reads. \<^verbatim>\<open>FrankaCubePush\<close> adds the key \<^verbatim>\<open>hold_counters\<close>.
\<close>

record states =
  eef_pos :: vec3
  eef_quat :: quat
  cube_pos :: vec3
  cube_quat :: quat
  cube_vel :: vec3
  cube_contact :: vec3
  goal_cube_pos :: vec3
  goal_cube_quat :: quat
  cube_to_goal_cube_pos :: vec3

record push_states = states +
  hold_counters :: real

text \<open>
  One row of the tensors \<^verbatim>\<open>_update_states\<close> reads: the simulator's views
  \<^verbatim>\<open>_cube_state\<close>, \<^verbatim>\<open>_eef_state\<close>, \<^verbatim>\<open>_finger_state\<close> and the task's
  \<^verbatim>\<open>_goal_cube_state\<close>. Their contents at the time of a refresh are an input of
  the model, so every theorem holds for whatever the simulator produced.
\<close>

record buffers =
  cube_state_pos :: vec3
  cube_state_quat :: quat
  cube_state_vel :: vec3
  eef_state_pos :: vec3
  eef_state_quat :: quat
  finger_state_pos :: vec3
  goal_cube_state_pos :: vec3
  goal_cube_state_quat :: quat

datatype control_input = Pose2d | Pose3d | Pose6d | Primitive

text \<open>
  The attributes of a task object: configuration fixed by \<^verbatim>\<open>__init__\<close> and the
  buffers the methods mutate. \<^verbatim>\<open>proprio_hist_buf\<close> has shape
  \<open>(num_envs, prop_hist_len, prop_dim)\<close>; the last two sizes are kept as fields since
  a list of lists cannot tell the width of an empty history.
\<close>

record 'st task =
  num_envs :: nat
  max_episode_length :: real
  reward_settings :: "string \<rightharpoonup> real"
  control_input :: control_input
  franka_dof_noise :: real
  franka_default_dof_pos :: "real list"
  franka_dof_lower_limits :: "real list"
  franka_dof_upper_limits :: "real list"
  franka_effort_limits :: "real list"
  kp :: "real list"
  kd :: "real list"
  kp_null :: "real list"
  kd_null :: "real list"
  states :: "'st list"
  progress_buf :: "int list"
  reset_buf :: "int list"
  rew_buf :: "real list"
  extras_success :: "bool list"
  actions :: "real list list"
  pos_control :: "real list list"
  effort_control :: "real list list"
  prop_hist_len :: nat
  prop_dim :: nat
  proprio_hist_buf :: "real list list list"

record 'st throw_task = "'st task" +
  controlled_joints :: "nat list"
  kp_vel :: "real list"
  ki_vel :: "real list"
  cmd_limit :: "real list"
  action_scale :: real
  contact_time :: "real list"
  vel_i_error :: "real list list"

text \<open>
  The entries of \<^verbatim>\<open>self.cfg["env"]\<close> that \<^verbatim>\<open>__init__\<close> copies into
  \<^verbatim>\<open>self.reward_settings\<close>, and the dictionaries the three constructors build.
  \<^verbatim>\<open>_create_envs\<close> adds the key \<^verbatim>\<open>table_height\<close> in each task (the table
  position 1.0 plus half the table thickness 0.05).
\<close>

record cfg_env =
  posRewardScale :: real
  oriRewardScale :: real
  contactRewardScale :: real
  velRewardScale :: real
  successRewardScale :: real
  eefApproachPenaltyScale :: real
  nHoldSteps :: real

definition table_height :: real where
  "table_height = 1.0 + 0.05 / 2"

definition reward_settings_push :: "cfg_env \<Rightarrow> (string \<rightharpoonup> real)" where
  "reward_settings_push c =
     [''r_pos_scale'' \<mapsto> posRewardScale c,
      ''r_ori_scale'' \<mapsto> oriRewardScale c,
      ''r_contact_scale'' \<mapsto> contactRewardScale c,
      ''r_success_scale'' \<mapsto> successRewardScale c,
      ''n_hold_steps'' \<mapsto> nHoldSteps c,
      ''success_threshold'' \<mapsto> 0.05,
      ''table_height'' \<mapsto> table_height]"

definition reward_settings_slide :: "cfg_env \<Rightarrow> (string \<rightharpoonup> real)" where
  "reward_settings_slide c =
     [''r_pos_scale'' \<mapsto> posRewardScale c,
      ''r_ori_scale'' \<mapsto> oriRewardScale c,
      ''r_contact_scale'' \<mapsto> contactRewardScale c,
      ''table_height'' \<mapsto> table_height]"

definition reward_settings_throw :: "cfg_env \<Rightarrow> (string \<rightharpoonup> real)" where
  "reward_settings_throw c =
     [''r_pos_scale'' \<mapsto> posRewardScale c,
      ''r_ori_scale'' \<mapsto> oriRewardScale c,
      ''r_contact_scale'' \<mapsto> contactRewardScale c,
      ''r_vel_scale'' \<mapsto> velRewardScale c,
      ''r_success_scale'' \<mapsto> successRewardScale c,
      ''r_eef_approach_scale'' \<mapsto> eefApproachPenaltyScale c,
      ''table_height'' \<mapsto> table_height]"

section \<open>Operational-space control\<close>

text \<open>
  \<^verbatim>\<open>_compute_osc_torques\<close> is the same text in the three task files. The model is
  the computation for one environment; the source applies it to every row of the
  batch. Matrices are lists of rows.
\<close>

definition dot :: "real list \<Rightarrow> real list \<Rightarrow> real" where
  "dot xs ys = sum_list (map2 (*) xs ys)"

definition mat_vec :: "real list list \<Rightarrow> real list \<Rightarrow> real list" where
  "mat_vec A v = map (\<lambda>row. dot row v) A"

definition mat_mul :: "real list list \<Rightarrow> real list list \<Rightarrow> real list list" where
  "mat_mul A B = map (\<lambda>row. map (\<lambda>col. dot row col) (transpose B)) A"

definition mat_sub :: "real list list \<Rightarrow> real list list \<Rightarrow> real list list" where
  "mat_sub A B = map2 (map2 (-)) A B"

definition eye :: "nat \<Rightarrow> real list list" where
  "eye n = map (\<lambda>i. map (\<lambda>j. if i = j then 1 else 0) [0..<n]) [0..<n]"

text \<open>
  The operator \<^verbatim>\<open>%\<close> on tensors is \<^verbatim>\<open>torch.remainder\<close>: the remainder of the
  floored division, which has the sign of the divisor.
\<close>

definition remainder :: "real \<Rightarrow> real \<Rightarrow> real" where
  "remainder a b = a - b * of_int \<lfloor>a / b\<rfloor>"

text \<open>
  The joint-angle error of the nullspace term,
  \<^verbatim>\<open>(self.franka_default_dof_pos[:7] - q + np.pi) % (2 * np.pi) - np.pi\<close>,
  with \<^verbatim>\<open>q = self._q[:, :7]\<close>.
\<close>

definition joint_error :: "real \<Rightarrow> real \<Rightarrow> real" where
  "joint_error d qi = remainder (d - qi + pi) (2 * pi) - pi"

definition nullspace_error :: "real list \<Rightarrow> real list \<Rightarrow> real list" where
  "nullspace_error default_dof_pos q_all =
     map2 joint_error (take 7 default_dof_pos) (take 7 q_all)"

text \<open>
  Modelled from the spec: \<^verbatim>\<open>tensor_clamp\<close> is imported from
  \<^verbatim>\<open>isaacgymenvs/utils/torch_jit_utils.py\<close>, which is not among the source files.
  The spec says of its use here: "Final torque is clamped elementwise to actuator
  effort limits." The arguments are the value, the lower and the upper bound.
\<close>

definition tensor_clamp :: "real \<Rightarrow> real \<Rightarrow> real \<Rightarrow> real" where
  "tensor_clamp t min_t max_t = max (min t max_t) min_t"

text \<open>
  One environment's rows of the simulator tensors the control laws read: joint
  positions \<^verbatim>\<open>_q\<close> and velocities \<^verbatim>\<open>_qd\<close> (9 joints), the mass matrix
  \<^verbatim>\<open>_mm\<close> (7 x 7), the end-effector Jacobian \<^verbatim>\<open>_j_eef\<close> (6 x 7) and the
  end-effector twist \<^verbatim>\<open>states["eef_vel"]\<close>. \<^verbatim>\<open>torch.inverse\<close> belongs to the
  tensor library and is a parameter \<open>inverse_t\<close> of the model.
\<close>

record dynamics =
  dof_pos :: "real list"
  dof_vel :: "real list"
  mm :: "real list list"
  j_eef :: "real list list"
  eef_vel :: "real list"

definition osc_pre_clamp ::
  "(real list list \<Rightarrow> real list list) \<Rightarrow> ('st, 'b) task_scheme \<Rightarrow> dynamics \<Rightarrow>
     real list \<Rightarrow> real list" where
  "osc_pre_clamp inverse_t self d dpose =
     (let qd = take 7 (dof_vel d);
          mm_inv = inverse_t (mm d);
          j_eef_T = transpose (j_eef d);
          m_eef_inv = mat_mul (mat_mul (j_eef d) mm_inv) j_eef_T;
          m_eef = inverse_t m_eef_inv;
          u = mat_vec (mat_mul j_eef_T m_eef)
                (map2 (-) (map2 (*) (kp self) dpose) (map2 (*) (kd self) (eef_vel d)));
          j_eef_inv = mat_mul (mat_mul m_eef (j_eef d)) mm_inv;
          u_null = map2 (+) (map2 (*) (kd_null self) (map uminus qd))
                     (map2 (*) (kp_null self)
                        (nullspace_error (franka_default_dof_pos self) (dof_pos d)));
          u_null = mat_vec (mm d) u_null
      in map2 (+) u (mat_vec (mat_sub (eye 7) (mat_mul j_eef_T j_eef_inv)) u_null))"

definition clamp_efforts :: "real list \<Rightarrow> real list \<Rightarrow> real list" where
  "clamp_efforts u limits =
     map2 (\<lambda>t l. tensor_clamp t (- l) l) u (take 7 limits)"

definition compute_osc_torques ::
  "(real list list \<Rightarrow> real list list) \<Rightarrow> ('st, 'b) task_scheme \<Rightarrow> dynamics \<Rightarrow>
     real list \<Rightarrow> real list" where
  "compute_osc_torques inverse_t self d dpose =
     clamp_efforts (osc_pre_clamp inverse_t self d dpose) (franka_effort_limits self)"

section \<open>Reward and termination\<close>

text \<open>
  The last statement of the three \<^verbatim>\<open>compute_franka_reward\<close> functions,
  \<^verbatim>\<open>torch.where((progress_buf >= max_episode_length - 1) | success_condition,
  torch.ones_like(reset_buf), reset_buf)\<close>, for one environment.
\<close>

definition reset_where :: "real \<Rightarrow> int \<Rightarrow> bool \<Rightarrow> int \<Rightarrow> int" where
  "reset_where max_episode_length' progress success_condition reset =
     (if of_int progress \<ge> max_episode_length' - 1 \<or> success_condition then 1 else reset)"

subsection \<open>FrankaCubePush\<close>

text \<open>
  \<^verbatim>\<open>jerk_penalty = torch.norm(actions[:, :] - actions[:, 1:], dim=-1)\<close> subtracts
  a tensor of width \<open>A - 1\<close> from one of width \<open>A\<close>. Broadcasting allows this
  only for \<open>A \<le> 2\<close> (for \<open>A = 2\<close> the single column is repeated, for \<open>A \<le> 1\<close>
  the result is empty); any wider action tensor raises a shape error when the
  subtraction is executed.
\<close>

fun row_jerk :: "real list \<Rightarrow> real" where
  "row_jerk [a, b] = sqrt ((a - b) * (a - b) + (b - b) * (b - b))"
| "row_jerk row = 0"

definition jerk_penalty :: "real list list \<Rightarrow> error + real" where
  "jerk_penalty actions' =
     (if list_all (\<lambda>row. length row \<le> 2) actions'
      then Inr (sum_list (map row_jerk actions') / real (length actions'))
      else Inl ShapeError)"

text \<open>
  The reward of one environment. \<^verbatim>\<open>quat_mul\<close> and \<^verbatim>\<open>quat_conjugate\<close> are
  imported from \<^verbatim>\<open>torch_jit_utils\<close>, which is not among the source files; they
  are parameters of the model. As in the source, \<open>ori_reward\<close> is computed and
  then not used.
\<close>

definition push_reward_row ::
  "(quat \<Rightarrow> quat \<Rightarrow> quat) \<Rightarrow> (quat \<Rightarrow> quat) \<Rightarrow> real \<Rightarrow> real \<Rightarrow> real \<Rightarrow> real \<Rightarrow> real \<Rightarrow>
     push_states \<Rightarrow> real" where
  "push_reward_row quat_mul quat_conjugate n_hold_steps r_pos_scale r_contact_scale
       r_success_scale max_episode_length' s =
     (let delta_pos = vnorm (vsub (cube_pos s) (goal_cube_pos s));
          success_condition = (hold_counters s > n_hold_steps);
          pos_reward = 1.0 - tanh (10.0 * delta_pos);
          delta_quat = quat_mul (cube_quat s) (quat_conjugate (goal_cube_quat s));
          ori_reward = 1.0 - tanh (10.0 * qnorm delta_quat);
          contact_reward = 1.0 - tanh (10.0 * vnorm (cube_contact s));
          success_reward = (if success_condition then 1 else 0) * max_episode_length'
      in r_pos_scale * pos_reward + r_contact_scale * contact_reward
           + r_success_scale * success_reward)"

text \<open>
  The function is decorated with \<^verbatim>\<open>torch.jit.script\<close>. The flag \<open>jit\<close> says how
  it runs. With \<open>jit = True\<close> it runs as compiled TorchScript, whose executor
  removes tensor operations without side effects whose results are never used, so
  the jerk penalty is not evaluated. With \<open>jit = False\<close> scripting is disabled
  (\<^verbatim>\<open>PYTORCH_JIT=0\<close>) and the body runs as ordinary Python, statement by statement,
  so the subtraction of the jerk penalty is executed. The dictionary lookups raise
  in the order of the source text.
\<close>

definition compute_franka_reward_push ::
  "bool \<Rightarrow> (quat \<Rightarrow> quat \<Rightarrow> quat) \<Rightarrow> (quat \<Rightarrow> quat) \<Rightarrow> int list \<Rightarrow> int list \<Rightarrow>
     real list list \<Rightarrow> push_states list \<Rightarrow> (string \<rightharpoonup> real) \<Rightarrow> real \<Rightarrow>
     error + (real list \<times> int list \<times> bool list)" where
  "compute_franka_reward_push jit quat_mul quat_conjugate reset_buf' progress_buf' actions'
       states' reward_settings' max_episode_length' =
     (case getitem reward_settings' ''n_hold_steps'' of Inl e \<Rightarrow> Inl e
      | Inr n_hold_steps \<Rightarrow>
     (case (if jit then Inr 0 else jerk_penalty actions') of Inl e \<Rightarrow> Inl e
      | Inr jerk \<Rightarrow>
     (case getitem reward_settings' ''r_pos_scale'' of Inl e \<Rightarrow> Inl e
      | Inr r_pos_scale \<Rightarrow>
     (case getitem reward_settings' ''r_contact_scale'' of Inl e \<Rightarrow> Inl e
      | Inr r_contact_scale \<Rightarrow>
     (case getitem reward_settings' ''r_success_scale'' of Inl e \<Rightarrow> Inl e
      | Inr r_success_scale \<Rightarrow>
        (let success_condition = map (\<lambda>s. hold_counters s > n_hold_steps) states'
         in Inr (map (push_reward_row quat_mul quat_conjugate n_hold_steps r_pos_scale
                        r_contact_scale r_success_scale max_episode_length') states',
                 map (\<lambda>(r, p, c). reset_where max_episode_length' p c r)
                   (zip reset_buf' (zip progress_buf' success_condition)),
                 success_condition)))))))"

subsection \<open>FrankaCubeSlide\<close>

definition slide_direction :: "'a states_scheme \<Rightarrow> vec3" where
  "slide_direction s =
     (let delta_pos_vector = vsub (goal_cube_pos s) (cube_pos s);
          delta_pos = vnorm delta_pos_vector
      in vdiv delta_pos_vector (delta_pos + 0.000001))"

definition vel_along_direction :: "'a states_scheme \<Rightarrow> real" where
  "vel_along_direction s = vdot (cube_vel s) (slide_direction s)"

text \<open>\<^verbatim>\<open>vel_reward = torch.clamp(vel_along_direction, min=0.0)\<close>\<close>

definition vel_reward_slide :: "'a states_scheme \<Rightarrow> real" where
  "vel_reward_slide s = max (vel_along_direction s) 0.0"

text \<open>
  \<^verbatim>\<open>torch.where(vel_along_direction > contact_threshold, contact,
  torch.zeros_like(contact))\<close>: the condition has shape \<open>(num_envs)\<close>, \<^verbatim>\<open>contact\<close>
  has shape \<open>(num_envs, 3)\<close>. Broadcasting aligns the last dimensions, so the call
  is defined only for one environment (the flag is repeated along the row) and for
  three (flag \<open>j\<close> selects coordinate \<open>j\<close> of every row); for every other batch size
  it raises a shape error.
\<close>

definition where_contact :: "bool list \<Rightarrow> vec3 list \<Rightarrow> error + vec3 list" where
  "where_contact cond contact =
     (if length cond = 1
      then Inr (map (\<lambda>(c1, c2, c3). if cond ! 0 then (c1, c2, c3) else (0, 0, 0)) contact)
      else if length cond = 3
      then Inr (map (\<lambda>(c1, c2, c3). (if cond ! 0 then c1 else 0, if cond ! 1 then c2 else 0,
                                    if cond ! 2 then c3 else 0)) contact)
      else Inl ShapeError)"

definition compute_franka_reward_slide ::
  "int list \<Rightarrow> int list \<Rightarrow> real list list \<Rightarrow> 'a states_scheme list \<Rightarrow> (string \<rightharpoonup> real) \<Rightarrow>
     real \<Rightarrow> error + (real list \<times> int list \<times> bool list)" where
  "compute_franka_reward_slide reset_buf' progress_buf' actions' states' reward_settings'
       max_episode_length' =
     (let delta_pos = map (\<lambda>s. vnorm (vsub (goal_cube_pos s) (cube_pos s))) states';
          pos_reward = map (\<lambda>d. 1.0 - tanh (10.0 * d)) delta_pos;
          vel_reward = map vel_reward_slide states';
          contact_threshold = 0.1
      in case where_contact (map (\<lambda>s. vel_along_direction s > contact_threshold) states')
                (map cube_contact states') of Inl e \<Rightarrow> Inl e
         | Inr contact_penalty \<Rightarrow>
        (let contact_reward = map (\<lambda>c. 1.0 - tanh (10.0 * vnorm c)) contact_penalty
         in case getitem reward_settings' ''r_pos_scale'' of Inl e \<Rightarrow> Inl e
            | Inr r_pos_scale \<Rightarrow>
           (case getitem reward_settings' ''r_contact_scale'' of Inl e \<Rightarrow> Inl e
            | Inr r_contact_scale \<Rightarrow>
           (case getitem reward_settings' ''r_vel_scale'' of Inl e \<Rightarrow> Inl e
            | Inr r_vel_scale \<Rightarrow>
              (let success_threshold = 0.05;
                   success_condition = map (\<lambda>d. d < success_threshold) delta_pos
               in Inr (map (\<lambda>(p, c, v). r_pos_scale * p + r_contact_scale * c + r_vel_scale * v)
                         (zip pos_reward (zip contact_reward vel_reward)),
                       map (\<lambda>(r, p, c). reset_where max_episode_length' p c r)
                         (zip reset_buf' (zip progress_buf' success_condition)),
                       success_condition))))))"

subsection \<open>FrankaCubeThrow\<close>

definition dir_alignment :: "'a states_scheme \<Rightarrow> real" where
  "dir_alignment s =
     (let goal_dir = vsub (goal_cube_pos s) (cube_pos s);
          goal_dir = vdiv goal_dir (vnorm goal_dir + 0.0000001);
          vel_dir = vdiv (cube_vel s) (vnorm (cube_vel s) + 0.0000001)
      in vdot goal_dir vel_dir)"

text \<open>
  The alignment term of the direction reward,
  \<^verbatim>\<open>torch.clamp(dir_alignment, min=0.0)\<close>, which is then scaled by
  \<^verbatim>\<open>reward_settings["r_vel_scale"]\<close>.
\<close>

definition direction_term :: "'a states_scheme \<Rightarrow> real" where
  "direction_term s = max (dir_alignment s) 0.0"

definition success_condition_throw :: "int \<Rightarrow> 'a states_scheme \<Rightarrow> bool" where
  "success_condition_throw progress s =
     (let delta_pos = vnorm (vsub (cube_pos s) (goal_cube_pos s));
          success_threshold = 0.05;
          terminal_velocity_threshold = 0.001;
          success_condition1 = (vnorm (cube_vel s) < terminal_velocity_threshold);
          success_condition2 = (delta_pos < success_threshold);
          success_condition3 = (progress > 0)
      in success_condition1 \<and> success_condition2 \<and> success_condition3)"

definition compute_franka_reward_throw ::
  "int list \<Rightarrow> int list \<Rightarrow> real list list \<Rightarrow> 'a states_scheme list \<Rightarrow> (string \<rightharpoonup> real) \<Rightarrow>
     real \<Rightarrow> error + (real list \<times> int list \<times> bool list)" where
  "compute_franka_reward_throw reset_buf' progress_buf' actions' states' reward_settings'
       max_episode_length' =
     (case getitem reward_settings' ''r_pos_scale'' of Inl e \<Rightarrow> Inl e
      | Inr r_pos_scale \<Rightarrow>
     (case getitem reward_settings' ''r_vel_scale'' of Inl e \<Rightarrow> Inl e
      | Inr r_vel_scale \<Rightarrow>
     (case getitem reward_settings' ''r_success_scale'' of Inl e \<Rightarrow> Inl e
      | Inr r_success_scale \<Rightarrow>
        (let distance_reward =
               map (\<lambda>s. r_pos_scale
                      * (1.0 - tanh (10.0 * vnorm (vsub (cube_pos s) (goal_cube_pos s))))) states';
             direction_reward = map (\<lambda>s. r_vel_scale * direction_term s) states';
             velocity_reward = map (\<lambda>s. r_vel_scale * tanh (0.5 * vnorm (cube_vel s))) states';
             success_condition = map2 success_condition_throw progress_buf' states';
             success_reward = map (\<lambda>c. if c then r_success_scale else 0) success_condition
         in Inr (map (\<lambda>(d, r, v, c). d + r + v + c)
                   (zip distance_reward (zip direction_reward (zip velocity_reward success_reward))),
                 map (\<lambda>(r, p, c). reset_where max_episode_length' p c r)
                   (zip reset_buf' (zip progress_buf' success_condition)),
                 success_condition)))))"

section \<open>Methods of the task objects\<close>

text \<open>
  A method is a function from the object to the updated object, or to the error it
  raises. The buffers of a well-formed object have one entry per environment.
\<close>

definition wf_task :: "('st, 'b) task_scheme \<Rightarrow> bool" where
  "wf_task self \<longleftrightarrow>
     length (states self) = num_envs self \<and>
     length (progress_buf self) = num_envs self \<and>
     length (reset_buf self) = num_envs self \<and>
     length (pos_control self) = num_envs self \<and>
     length (effort_control self) = num_envs self \<and>
     length (proprio_hist_buf self) = num_envs self"

subsection \<open>State refresh\<close>

definition update_states_row :: "real \<Rightarrow> buffers \<Rightarrow> push_states \<Rightarrow> push_states" where
  "update_states_row success_threshold b old =
     (let dists = vsub (goal_cube_state_pos b) (cube_state_pos b);
          dists_norm = vnorm dists
      in \<lparr> eef_pos = eef_state_pos b,
           eef_quat = eef_state_quat b,
           cube_pos = cube_state_pos b,
           cube_quat = cube_state_quat b,
           cube_vel = cube_state_vel b,
           cube_contact = vsub (cube_state_pos b) (finger_state_pos b),
           goal_cube_pos = goal_cube_state_pos b,
           goal_cube_quat = goal_cube_state_quat b,
           cube_to_goal_cube_pos = dists,
           hold_counters = (if dists_norm < success_threshold then hold_counters old + 1 else 0) \<rparr>)"

text \<open>
  \<^verbatim>\<open>FrankaCubePush._update_states\<close>. \<^verbatim>\<open>_refresh\<close> asks the simulator to refresh
  its tensors and then calls it; \<^verbatim>\<open>compute_observations\<close> calls \<^verbatim>\<open>_refresh\<close> and
  builds the observation tensor, which is not part of the model.
\<close>

definition update_states_push :: "buffers list \<Rightarrow> push_states task \<Rightarrow> error + push_states task" where
  "update_states_push bufs self =
     (case getitem (reward_settings self) ''success_threshold'' of Inl e \<Rightarrow> Inl e
      | Inr success_threshold \<Rightarrow>
          Inr (self\<lparr>states := map2 (update_states_row success_threshold) bufs (states self)\<rparr>))"

definition refresh_push :: "buffers list \<Rightarrow> push_states task \<Rightarrow> error + push_states task" where
  "refresh_push bufs self = update_states_push bufs self"

definition compute_observations_push ::
  "buffers list \<Rightarrow> push_states task \<Rightarrow> error + push_states task" where
  "compute_observations_push bufs self = refresh_push bufs self"

definition update_states_row_throw :: "buffers \<Rightarrow> states" where
  "update_states_row_throw b =
     \<lparr> eef_pos = eef_state_pos b,
       eef_quat = eef_state_quat b,
       cube_pos = cube_state_pos b,
       cube_quat = cube_state_quat b,
       cube_vel = cube_state_vel b,
       cube_contact = vsub (cube_state_pos b) (finger_state_pos b),
       goal_cube_pos = goal_cube_state_pos b,
       goal_cube_quat = goal_cube_state_quat b,
       cube_to_goal_cube_pos = vsub (goal_cube_state_pos b) (cube_state_pos b) \<rparr>"

definition compute_observations_throw :: "buffers list \<Rightarrow> states throw_task \<Rightarrow> states throw_task" where
  "compute_observations_throw bufs self = self\<lparr>states := map update_states_row_throw bufs\<rparr>"

subsection \<open>Reward\<close>

definition compute_reward_push ::
  "bool \<Rightarrow> (quat \<Rightarrow> quat \<Rightarrow> quat) \<Rightarrow> (quat \<Rightarrow> quat) \<Rightarrow> push_states task \<Rightarrow>
     error + push_states task" where
  "compute_reward_push jit quat_mul quat_conjugate self =
     (case compute_franka_reward_push jit quat_mul quat_conjugate (reset_buf self)
             (progress_buf self) (actions self) (states self) (reward_settings self)
             (max_episode_length self) of Inl e \<Rightarrow> Inl e
      | Inr (rew, rst, suc) \<Rightarrow>
          Inr (self\<lparr>rew_buf := rew, reset_buf := rst, extras_success := suc\<rparr>))"

definition compute_reward_throw :: "states throw_task \<Rightarrow> error + states throw_task" where
  "compute_reward_throw self =
     (case compute_franka_reward_throw (reset_buf self) (progress_buf self) (actions self)
             (states self) (reward_settings self) (max_episode_length self) of Inl e \<Rightarrow> Inl e
      | Inr (rew, rst, suc) \<Rightarrow>
          Inr (self\<lparr>rew_buf := rew, reset_buf := rst, extras_success := suc\<rparr>))"

subsection \<open>Proprioceptive history\<close>

text \<open>
  \<^verbatim>\<open>store_proprio_hist\<close> is the same text in the three task files. The source row is
  the cube position followed by the cube quaternion, so \<^verbatim>\<open>cube_states.shape[1]\<close> is
  7. \<^verbatim>\<open>torch.roll(..., shifts=-1, dims=1)\<close> moves the oldest slot to the end, and the
  assignment to index \<open>-1\<close> of the history dimension overwrites it; it raises an index
  error when the history has no slot.
\<close>

definition cube_states_row :: "'a states_scheme \<Rightarrow> real list" where
  "cube_states_row s = vec3_list (cube_pos s) @ quat_list (cube_quat s)"

definition store_proprio_hist ::
  "('a states_scheme, 'b) task_scheme \<Rightarrow> error + ('a states_scheme, 'b) task_scheme" where
  "store_proprio_hist self =
     (let cube_states = map cube_states_row (states self);
          cube_states_dim = 7;
          prop_his_buf_dim = prop_dim self
      in if cube_states_dim > prop_his_buf_dim then Inl ValueError
         else
           (let cube_states =
                  (if cube_states_dim < prop_his_buf_dim
                   then map (\<lambda>row. row @ replicate (prop_his_buf_dim - cube_states_dim) 0)
                          cube_states
                   else cube_states);
                rolled = map rotate1 (proprio_hist_buf self)
            in if prop_hist_len self = 0 then Inl IndexError
               else Inr (self\<lparr>proprio_hist_buf :=
                           map2 (\<lambda>hist row. hist[length hist - 1 := row]) rolled cube_states\<rparr>)))"

subsection \<open>Reset\<close>

text \<open>
  The joint positions written by a reset. \<open>reset_noise k j\<close> is entry \<open>(k, j)\<close> of
  \<^verbatim>\<open>torch.rand((len(env_ids), 9))\<close>. The calls into the simulator, the domain
  randomisation and the sampling of the cube and goal poses write tensors that are
  not part of the model.
\<close>

definition reset_pos :: "('st, 'b) task_scheme \<Rightarrow> real list \<Rightarrow> real list" where
  "reset_pos self noise_row =
     (let pos = map (\<lambda>(d, r, lo, hi).
                       tensor_clamp (d + franka_dof_noise self * 2.0 * (r - 0.5)) lo hi)
                  (zip (franka_default_dof_pos self)
                     (zip noise_row
                        (zip (franka_dof_lower_limits self) (franka_dof_upper_limits self))))
      in take (length pos - 2) pos
           @ drop (length (franka_default_dof_pos self) - 2) (franka_default_dof_pos self))"

definition reset_agent ::
  "nat list \<Rightarrow> (nat \<Rightarrow> nat \<Rightarrow> real) \<Rightarrow> ('st, 'b) task_scheme \<Rightarrow> ('st, 'b) task_scheme" where
  "reset_agent env_ids reset_noise self =
     (let pos = map (\<lambda>k. reset_pos self (map (reset_noise k) [0..<9])) [0..<length env_ids]
      in self\<lparr>pos_control := index_put_rows env_ids pos (pos_control self),
              effort_control :=
                index_put_rows env_ids (map (map (\<lambda>x. 0)) pos) (effort_control self)\<rparr>)"

definition reset_idx_push ::
  "nat list \<Rightarrow> (nat \<Rightarrow> nat \<Rightarrow> real) \<Rightarrow> push_states task \<Rightarrow> error + push_states task" where
  "reset_idx_push env_ids reset_noise self =
     (if \<not> list_all (\<lambda>i. i < num_envs self) env_ids then Inl IndexError
      else
        (let self = reset_agent env_ids reset_noise self
         in Inr (self\<lparr>progress_buf := index_put env_ids 0 (progress_buf self),
                     reset_buf := index_put env_ids 0 (reset_buf self),
                     states := fold (\<lambda>i ss. ss[i := (ss ! i)\<lparr>hold_counters := 0\<rparr>]) env_ids
                                 (states self)\<rparr>)))"

definition reset_idx_throw ::
  "nat list \<Rightarrow> (nat \<Rightarrow> nat \<Rightarrow> real) \<Rightarrow> ('st, 'b) throw_task_scheme \<Rightarrow>
     error + ('st, 'b) throw_task_scheme" where
  "reset_idx_throw env_ids reset_noise self =
     (if \<not> list_all (\<lambda>i. i < num_envs self) env_ids then Inl IndexError
      else
        (let self = self\<lparr>contact_time := index_put env_ids 0.0 (contact_time self)\<rparr>;
             self = reset_agent env_ids reset_noise self
         in Inr (self\<lparr>progress_buf := index_put env_ids 0 (progress_buf self),
                     reset_buf := index_put env_ids 0 (reset_buf self)\<rparr>)))"

subsection \<open>Joint-velocity control of FrankaCubeThrow\<close>

definition vel_error_row :: "nat list \<Rightarrow> real list \<Rightarrow> real list \<Rightarrow> real list" where
  "vel_error_row controlled jvel qd_all =
     map (\<lambda>(j, c, v). if j \<in> set controlled then c - v else 0 - v)
       (zip [0..<7] (zip jvel (take 7 qd_all)))"

definition compute_jvel_torques ::
  "real list list \<Rightarrow> real list list \<Rightarrow> ('st, 'b) throw_task_scheme \<Rightarrow>
     real list list \<times> ('st, 'b) throw_task_scheme" where
  "compute_jvel_torques jvel qd_all self =
     (let vel_error = map2 (vel_error_row (controlled_joints self)) jvel qd_all;
          self = self\<lparr>vel_i_error := map2 (map2 (+)) (vel_i_error self) vel_error\<rparr>;
          u = map2 (\<lambda>e i. map2 (+) (map2 (*) (kp_vel self) e) (map2 (*) (ki_vel self) i))
                vel_error (vel_i_error self);
          u = map (\<lambda>row. clamp_efforts row (franka_effort_limits self)) u
      in (u, self))"

text \<open>
  \<^verbatim>\<open>FrankaCubeThrow.pre_physics_step\<close> for \<^verbatim>\<open>control_type == "jvel"\<close>. (With
  \<^verbatim>\<open>"osc"\<close> it calls \<^verbatim>\<open>_compute_osc_torques\<close>, which reads the attribute
  \<^verbatim>\<open>self.kp\<close> that this class never assigns.) \<open>qd_all\<close> is the simulator's joint
  velocity tensor.
\<close>

definition joint_cmd_row :: "('st, 'b) throw_task_scheme \<Rightarrow> real list \<Rightarrow> real list" where
  "joint_cmd_row self action_row =
     (let u_arm = butlast action_row;
          joint_cmd = index_put_rows (controlled_joints self) u_arm (replicate 7 0)
      in map2 (\<lambda>c l. c * l / action_scale self) joint_cmd (cmd_limit self))"

definition fingers_row :: "('st, 'b) throw_task_scheme \<Rightarrow> real list \<Rightarrow> real list" where
  "fingers_row self action_row =
     (let u_gripper = last action_row;
          lower = franka_dof_lower_limits self;
          upper = franka_dof_upper_limits self
      in [if u_gripper \<ge> 0.0 then last (butlast upper) else last (butlast lower),
          if u_gripper \<ge> 0.0 then last upper else last lower])"

definition pre_physics_step_throw ::
  "real list list \<Rightarrow> real list list \<Rightarrow> ('st, 'b) throw_task_scheme \<Rightarrow>
     ('st, 'b) throw_task_scheme" where
  "pre_physics_step_throw actions' qd_all self =
     (let self = self\<lparr>actions := actions'\<rparr>;
          joint_cmd = map (joint_cmd_row self) actions';
          (u_arm, self) = compute_jvel_torques joint_cmd qd_all self
      in self\<lparr>effort_control := map2 (\<lambda>u row. u @ drop 7 row) u_arm (effort_control self),
              pos_control := map2 (\<lambda>a row. take 7 row @ fingers_row self a) actions'
                               (pos_control self)\<rparr>)"

subsection \<open>The step after physics\<close>

text \<open>
  \<^verbatim>\<open>post_physics_step\<close> of the push and of the throw task. The counter
  \<^verbatim>\<open>randomize_buf\<close> of the domain randomisation and the debug visualisation are
  not part of the model. \<open>bufs\<close> is what the refresh inside
  \<^verbatim>\<open>compute_observations\<close> reads, \<open>bufs2\<close> what the second refresh of the
  one-step primitive episodes reads.
\<close>

definition post_physics_step_push ::
  "bool \<Rightarrow> (quat \<Rightarrow> quat \<Rightarrow> quat) \<Rightarrow> (quat \<Rightarrow> quat) \<Rightarrow> (nat \<Rightarrow> nat \<Rightarrow> real) \<Rightarrow> buffers list \<Rightarrow>
     buffers list \<Rightarrow> push_states task \<Rightarrow> error + push_states task" where
  "post_physics_step_push jit quat_mul quat_conjugate reset_noise bufs bufs2 self =
     (let self = self\<lparr>progress_buf := map (\<lambda>p. p + 1) (progress_buf self)\<rparr>;
          hack = (control_input self = Primitive \<and> max_episode_length self = 1);
          env_ids = (if hack then [0..<num_envs self] else nonzero (reset_buf self))
      in case (if length env_ids > 0 then reset_idx_push env_ids reset_noise self
               else Inr self) of Inl e \<Rightarrow> Inl e
         | Inr self \<Rightarrow>
        (case compute_observations_push bufs self of Inl e \<Rightarrow> Inl e
         | Inr self \<Rightarrow>
        (case compute_reward_push jit quat_mul quat_conjugate self of Inl e \<Rightarrow> Inl e
         | Inr self \<Rightarrow>
        (case store_proprio_hist self of Inl e \<Rightarrow> Inl e
         | Inr self \<Rightarrow>
            if hack then compute_observations_push bufs2 self else Inr self))))"

definition post_physics_step_throw ::
  "(nat \<Rightarrow> nat \<Rightarrow> real) \<Rightarrow> buffers list \<Rightarrow> states throw_task \<Rightarrow> error + states throw_task" where
  "post_physics_step_throw reset_noise bufs self =
     (let self = self\<lparr>progress_buf := map (\<lambda>p. p + 1) (progress_buf self)\<rparr>;
          in_contact = map (\<lambda>s. if vnorm (cube_contact s) < 0.2 then 1 else 0) (states self);
          self = self\<lparr>contact_time :=
                   map (\<lambda>(c, i, r). (c + i) * (1 - of_int r))
                     (zip (contact_time self) (zip in_contact (reset_buf self)))\<rparr>;
          env_ids = nonzero (reset_buf self)
      in case (if length env_ids > 0 then reset_idx_throw env_ids reset_noise self
               else Inr self) of Inl e \<Rightarrow> Inl e
         | Inr self \<Rightarrow>
        (case compute_reward_throw (compute_observations_throw bufs self) of Inl e \<Rightarrow> Inl e
         | Inr self \<Rightarrow> store_proprio_hist self))"

section \<open>Reachable states\<close>

text \<open>
  The states a \<^verbatim>\<open>FrankaCubePush\<close> object can be in. \<^verbatim>\<open>init_data\<close> allocates the
  hold counters as zeros; the rest of \<^verbatim>\<open>__init__\<close> is a reset of all environments
  and a refresh. After that the object is changed by its methods: a reset (also one
  forced from outside), a refresh (the scripted primitive refreshes several times in
  one step), the step after physics, and \<^verbatim>\<open>pre_physics_step\<close>, which assigns the
  actions, the gains and the arm torques; the last one is over-approximated by
  arbitrary values of these fields.
\<close>

inductive reachable_push :: "push_states task \<Rightarrow> bool" where
  init_data: "wf_task self \<Longrightarrow> list_all (\<lambda>s. hold_counters s = 0) (states self) \<Longrightarrow>
     reachable_push self"
| reset: "reachable_push self \<Longrightarrow> reset_idx_push env_ids reset_noise self = Inr self' \<Longrightarrow>
     reachable_push self'"
| refresh: "reachable_push self \<Longrightarrow> length bufs = num_envs self \<Longrightarrow>
     refresh_push bufs self = Inr self' \<Longrightarrow> reachable_push self'"
| pre_step: "reachable_push self \<Longrightarrow> length u = num_envs self \<Longrightarrow>
     reachable_push (self\<lparr>actions := a, kp := p, kd := d, effort_control := u\<rparr>)"
| post_step: "reachable_push self \<Longrightarrow> length bufs = num_envs self \<Longrightarrow>
     length bufs2 = num_envs self \<Longrightarrow>
     post_physics_step_push jit quat_mul quat_conjugate reset_noise bufs bufs2 self = Inr self' \<Longrightarrow>
     reachable_push self'"

text \<open>
  The states of a \<^verbatim>\<open>FrankaCubeThrow\<close> object with joint-velocity control:
  \<^verbatim>\<open>init_data\<close> allocates the contact timer and \<^verbatim>\<open>__init__\<close> the integral
  accumulator as zeros.
\<close>

definition wf_throw :: "('st, 'b) throw_task_scheme \<Rightarrow> bool" where
  "wf_throw self \<longleftrightarrow> wf_task self \<and> length (contact_time self) = num_envs self
     \<and> length (vel_i_error self) = num_envs self"

inductive reachable_throw :: "states throw_task \<Rightarrow> bool" where
  init_data: "wf_throw self \<Longrightarrow> list_all (\<lambda>c. c = 0) (contact_time self) \<Longrightarrow>
     list_all (\<lambda>row. row = replicate 7 0) (vel_i_error self) \<Longrightarrow> reachable_throw self"
| reset: "reachable_throw self \<Longrightarrow> reset_idx_throw env_ids reset_noise self = Inr self' \<Longrightarrow>
     reachable_throw self'"
| pre_step: "reachable_throw self \<Longrightarrow> length a = num_envs self \<Longrightarrow>
     length qd_all = num_envs self \<Longrightarrow>
     reachable_throw (pre_physics_step_throw a qd_all self)"
| post_step: "reachable_throw self \<Longrightarrow> length bufs = num_envs self \<Longrightarrow>
     post_physics_step_throw reset_noise bufs self = Inr self' \<Longrightarrow> reachable_throw self'"

text \<open>
  The history buffer of a well-formed object has \<^verbatim>\<open>prop_hist_len\<close> slots of width
  \<^verbatim>\<open>prop_dim\<close> for every environment.
\<close>

definition wf_hist :: "('st, 'b) task_scheme \<Rightarrow> bool" where
  "wf_hist self \<longleftrightarrow>
     list_all (\<lambda>hist. length hist = prop_hist_len self \<and>
                 list_all (\<lambda>slot. length slot = prop_dim self) hist) (proprio_hist_buf self)"

text \<open>A sequence of state refreshes, one for each entry of the list of simulator outputs.\<close>

fun refresh_all :: "buffers list list \<Rightarrow> push_states task \<Rightarrow> error + push_states task" where
  "refresh_all [] self = Inr self"
| "refresh_all (bufs # rest) self =
     (case refresh_push bufs self of Inl e \<Rightarrow> Inl e | Inr self' \<Rightarrow> refresh_all rest self')"





section \<open>Example objects\<close>

text \<open>
  Concrete values on which the theorems below are instantiated. The default joint
  pose is the one \<^verbatim>\<open>FrankaCubePush.__init__\<close> assigns for the control inputs other
  than \<^verbatim>\<open>pose2d\<close> and \<^verbatim>\<open>primitive\<close>; the joint and effort limits come from the
  robot description file and are those of the Franka Panda arm.
\<close>

definition franka_default_dof_pos_push :: "real list" where
  "franka_default_dof_pos_push = [0, 0.1963, 0, -2.6180, 0, 2.9416, 0.7854, 0.001, 0.001]"

definition example_cfg :: cfg_env where
  "example_cfg = \<lparr> posRewardScale = 1, oriRewardScale = 1, contactRewardScale = 1,
     velRewardScale = 1, successRewardScale = 1, eefApproachPenaltyScale = 1, nHoldSteps = 2 \<rparr>"

definition example_states :: push_states where
  "example_states = \<lparr> eef_pos = (0, 0, 1), eef_quat = (0, 0, 0, 1), cube_pos = (0, 0, 1),
     cube_quat = (0, 0, 0, 1), cube_vel = (0, 0, 0), cube_contact = (0, 0, 0),
     goal_cube_pos = (0, 1, 1), goal_cube_quat = (0, 0, 0, 1),
     cube_to_goal_cube_pos = (0, 1, 0), hold_counters = 0 \<rparr>"

definition example_push :: "push_states task" where
  "example_push = \<lparr> num_envs = 2, max_episode_length = 100,
     reward_settings = reward_settings_push example_cfg, control_input = Pose3d,
     franka_dof_noise = 0.25, franka_default_dof_pos = franka_default_dof_pos_push,
     franka_dof_lower_limits =
       [-2.8973, -1.7628, -2.8973, -3.0718, -2.8973, -0.0175, -2.8973, 0, 0],
     franka_dof_upper_limits =
       [2.8973, 1.7628, 2.8973, -0.0698, 2.8973, 3.7525, 2.8973, 0.04, 0.04],
     franka_effort_limits = [87, 87, 87, 87, 12, 12, 12, 200, 200],
     kp = replicate 6 200, kd = replicate 6 (2 * sqrt 200),
     kp_null = replicate 7 10, kd_null = replicate 7 (2 * sqrt 10),
     states = [example_states, example_states],
     progress_buf = [0, 0], reset_buf = [0, 0], rew_buf = [0, 0],
     extras_success = [False, False], actions = [[0, 0, 0], [0, 0, 0]],
     pos_control = [replicate 9 0, replicate 9 0],
     effort_control = [replicate 9 0, replicate 9 0],
     prop_hist_len = 2, prop_dim = 8,
     proprio_hist_buf = [[replicate 8 0, replicate 8 0], [replicate 8 0, replicate 8 0]] \<rparr>"

definition example_dynamics :: dynamics where
  "example_dynamics = \<lparr> dof_pos = [0, 0, 0, 0, 0, 0, 0.7854 - pi, 0, 0],
     dof_vel = replicate 9 0, mm = eye 7,
     j_eef = map (\<lambda>i. map (\<lambda>j. if i = j then 1 else 0) [0..<7]) [0..<6],
     eef_vel = replicate 6 0 \<rparr>"

definition example_slide_states :: states where
  "example_slide_states = \<lparr> eef_pos = (0, 0, 1), eef_quat = (0, 0, 0, 1), cube_pos = (0, 0, 1),
     cube_quat = (0, 0, 0, 1), cube_vel = (0, 2, 0), cube_contact = (0, 0, 0),
     goal_cube_pos = (0, 1, 1), goal_cube_quat = (0, 0, 0, 1),
     cube_to_goal_cube_pos = (0, 1, 0) \<rparr>"

text \<open>A dictionary with the key that the constructor of the slide task leaves out.\<close>

definition example_slide_settings :: "string \<rightharpoonup> real" where
  "example_slide_settings = (reward_settings_slide example_cfg)(''r_vel_scale'' \<mapsto> 1)"

text \<open>
  The state tensors with the rows of \<^verbatim>\<open>cube_quat\<close> and \<^verbatim>\<open>goal_cube_quat\<close>
  replaced: environment \<open>i\<close> gets the quaternions \<open>cq i\<close> and \<open>gq i\<close>.
\<close>

definition with_quats :: "(nat \<Rightarrow> quat) \<Rightarrow> (nat \<Rightarrow> quat) \<Rightarrow> push_states list \<Rightarrow> push_states list" where
  "with_quats cq gq sts =
     map (\<lambda>(i, s). s\<lparr>cube_quat := cq i, goal_cube_quat := gq i\<rparr>) (enumerate 0 sts)"

text \<open>
  A \<^verbatim>\<open>FrankaCubeThrow\<close> object with one environment, as \<^verbatim>\<open>__init__\<close> leaves it:
  joints 1, 3 and 5 are velocity controlled, the gains are 10 and 50, and the command
  limit of joint-velocity control is the effort limit of the arm joints.
\<close>

definition example_throw :: "states throw_task" where
  "example_throw = \<lparr> num_envs = 1, max_episode_length = 100,
     reward_settings = reward_settings_throw example_cfg, control_input = Pose3d,
     franka_dof_noise = 0.25,
     franka_default_dof_pos = [0, 1.0472, 0, -1.5708, 0, 2.61799, 0.7854, 0.020, 0.020],
     franka_dof_lower_limits =
       [-2.8973, -1.7628, -2.8973, -3.0718, -2.8973, -0.0175, -2.8973, 0, 0],
     franka_dof_upper_limits =
       [2.8973, 1.7628, 2.8973, -0.0698, 2.8973, 3.7525, 2.8973, 0.04, 0.04],
     franka_effort_limits = [87, 87, 87, 87, 12, 12, 12, 200, 200],
     kp = [], kd = [], kp_null = [], kd_null = [],
     states = [example_slide_states],
     progress_buf = [0], reset_buf = [0], rew_buf = [0],
     extras_success = [False], actions = [[0, 0, 0, 0]],
     pos_control = [replicate 9 0],
     effort_control = [replicate 9 0],
     prop_hist_len = 2, prop_dim = 8,
     proprio_hist_buf = [[replicate 8 0, replicate 8 0]],
     controlled_joints = [1, 3, 5],
     kp_vel = replicate 7 10, ki_vel = replicate 7 50,
     cmd_limit = [87, 87, 87, 87, 12, 12, 12], action_scale = 1,
     contact_time = [0], vel_i_error = [replicate 7 0] \<rparr>"



section \<open>Operational-space control: wrapped joint error and torque clamp\<close>

lemma remainder_range: "0 < b \<Longrightarrow> 0 \<le> remainder a b \<and> remainder a b < b"
proof -
  assume b: "0 < b"
  have 1: "of_int \<lfloor>a / b\<rfloor> \<le> a / b" by simp
  have 2: "a / b < of_int \<lfloor>a / b\<rfloor> + 1" by linarith
  have "of_int \<lfloor>a / b\<rfloor> * b \<le> a" using pos_le_divide_eq[THEN iffD1, OF b 1] .
  moreover have "a < (of_int \<lfloor>a / b\<rfloor> + 1) * b" using pos_divide_less_eq[THEN iffD1, OF b 2] .
  ultimately show ?thesis by (simp add: remainder_def algebra_simps)
qed

lemma joint_error_range: "- pi \<le> joint_error d qi \<and> joint_error d qi < pi"
  using remainder_range[of "2 * pi" "d - qi + pi"] by (simp add: joint_error_def)

lemma joint_error_congruent: "\<exists>k::int. joint_error d qi = (d - qi) + 2 * pi * of_int k"
  by (rule exI[of _ "- \<lfloor>(d - qi + pi) / (2 * pi)\<rfloor>"]) (simp add: joint_error_def remainder_def)

lemma nullspace_error_nth:
  "j < length (nullspace_error D Q) \<Longrightarrow> nullspace_error D Q ! j = joint_error (D ! j) (Q ! j)"
  by (simp add: nullspace_error_def)

text \<open>
  Claim C4, as the code has it. Every component of the joint-angle error that the
  nullspace term multiplies with \<^verbatim>\<open>kp_null\<close> differs from
  \<open>default_pose - q\<close> by an integer multiple of \<open>2\<pi>\<close> and lies in the half-open
  interval from \<open>-\<pi>\<close> (included) to \<open>\<pi>\<close> (excluded).
\<close>

theorem joint_error_wrapped:
  assumes "j < length (nullspace_error D Q)"
  shows "- pi \<le> nullspace_error D Q ! j \<and> nullspace_error D Q ! j < pi \<and>
    (\<exists>k::int. nullspace_error D Q ! j = (D ! j - Q ! j) + 2 * pi * of_int k)"
  using joint_error_range[of "D ! j" "Q ! j"] joint_error_congruent[of "D ! j" "Q ! j"]
    nullspace_error_nth[OF assms] by simp

theorem joint_error_wrapped_witness:
  "6 < length (nullspace_error franka_default_dof_pos_push (dof_pos example_dynamics)) \<and>
   - pi \<le> nullspace_error franka_default_dof_pos_push (dof_pos example_dynamics) ! 6 \<and>
   nullspace_error franka_default_dof_pos_push (dof_pos example_dynamics) ! 6 < pi"
proof -
  have h: "6 < length (nullspace_error franka_default_dof_pos_push (dof_pos example_dynamics))"
    by (simp add: nullspace_error_def franka_default_dof_pos_push_def example_dynamics_def)
  show ?thesis using h joint_error_wrapped[OF h] by simp
qed

text \<open>
  Claim C4 as stated (the error lies in the interval that excludes \<open>-\<pi>\<close> and includes
  \<open>\<pi>\<close>) fails: with the default pose of the push task and joint 7 at
  \<open>0.7854 - \<pi>\<close>, which is inside the joint's range, the error of joint 7 is
  exactly \<open>-\<pi>\<close>.
\<close>

theorem joint_error_counterexample:
  "nullspace_error franka_default_dof_pos_push (dof_pos example_dynamics) ! 6 = - pi \<and>
   \<not> (- pi < nullspace_error franka_default_dof_pos_push (dof_pos example_dynamics) ! 6 \<and>
       nullspace_error franka_default_dof_pos_push (dof_pos example_dynamics) ! 6 \<le> pi)"
  by (simp add: nullspace_error_def franka_default_dof_pos_push_def example_dynamics_def
      joint_error_def remainder_def)

lemma length_transpose_rows:
  "xs \<noteq> [] \<Longrightarrow> \<forall>row \<in> set xs. length row = n \<Longrightarrow> length (transpose xs) = n"
proof -
  assume ne: "xs \<noteq> []" and all: "\<forall>row \<in> set xs. length row = n"
  have "foldr (\<lambda>xs. max (length xs)) xs 0 = n" using ne all
  proof (induction xs)
    case Nil then show ?case by simp
  next
    case (Cons a xs)
    show ?case
    proof (cases xs)
      case Nil with Cons.prems show ?thesis by simp
    next
      case (Cons b ys)
      with Cons.IH Cons.prems have "foldr (\<lambda>xs. max (length xs)) xs 0 = n" by simp
      with Cons.prems show ?thesis by simp
    qed
  qed
  then show ?thesis by (simp add: length_transpose)
qed

lemma length_osc_pre_clamp:
  "length (osc_pre_clamp inverse_t self d dpose) = min (length (transpose (j_eef d))) 7"
  by (simp add: osc_pre_clamp_def Let_def mat_vec_def mat_mul_def mat_sub_def eye_def)

lemma tensor_clamp_bounds:
  "0 \<le> l \<Longrightarrow> - l \<le> tensor_clamp t (- l) l \<and> tensor_clamp t (- l) l \<le> l"
  by (simp add: tensor_clamp_def)

lemma tensor_clamp_upper: "0 \<le> l \<Longrightarrow> l < t \<Longrightarrow> tensor_clamp t (- l) l = l"
  by (simp add: tensor_clamp_def)

lemma tensor_clamp_lower: "0 \<le> l \<Longrightarrow> t < - l \<Longrightarrow> tensor_clamp t (- l) l = - l"
  by (simp add: tensor_clamp_def)

lemma clamp_efforts_nth:
  "i < length u \<Longrightarrow> i < 7 \<Longrightarrow> i < length limits \<Longrightarrow>
   clamp_efforts u limits ! i = tensor_clamp (u ! i) (- (limits ! i)) (limits ! i)"
  by (simp add: clamp_efforts_def)

lemma length_clamp_efforts:
  "length (clamp_efforts u limits) = min (length u) (min (length limits) 7)"
  by (simp add: clamp_efforts_def)

text \<open>
  Claim C6. For a Jacobian with seven columns and non-negative effort limits of the
  seven arm joints, \<^verbatim>\<open>_compute_osc_torques\<close> returns seven torques, each within
  the effort limit of its joint, whatever the pose command, the state and the result
  of the matrix inversions; a torque that exceeds the limit before the clamp is
  returned as exactly the limit, and one below the negated limit as exactly the
  negated limit.
\<close>

theorem osc_torques_clamped:
  assumes J: "j_eef d \<noteq> []" "\<forall>row \<in> set (j_eef d). length row = 7"
    and len: "7 \<le> length (franka_effort_limits self)"
    and nonneg: "\<forall>l \<in> set (franka_effort_limits self). 0 \<le> l"
  shows "length (compute_osc_torques inverse_t self d dpose) = 7 \<and>
    (\<forall>i<7. - (franka_effort_limits self ! i) \<le> compute_osc_torques inverse_t self d dpose ! i
        \<and> compute_osc_torques inverse_t self d dpose ! i \<le> franka_effort_limits self ! i
        \<and> (franka_effort_limits self ! i < osc_pre_clamp inverse_t self d dpose ! i \<longrightarrow>
             compute_osc_torques inverse_t self d dpose ! i = franka_effort_limits self ! i)
        \<and> (osc_pre_clamp inverse_t self d dpose ! i < - (franka_effort_limits self ! i) \<longrightarrow>
             compute_osc_torques inverse_t self d dpose ! i = - (franka_effort_limits self ! i)))"
proof -
  have lp: "length (osc_pre_clamp inverse_t self d dpose) = 7"
    using length_transpose_rows[OF J] by (simp add: length_osc_pre_clamp)
  have l7: "length (compute_osc_torques inverse_t self d dpose) = 7"
    using lp len by (simp add: compute_osc_torques_def length_clamp_efforts)
  {
    fix i :: nat assume i: "i < 7"
    from i len have il: "i < length (franka_effort_limits self)" by simp
    then have nn: "0 \<le> franka_effort_limits self ! i" using nonneg by simp
    have eq: "compute_osc_torques inverse_t self d dpose ! i =
        tensor_clamp (osc_pre_clamp inverse_t self d dpose ! i)
          (- (franka_effort_limits self ! i)) (franka_effort_limits self ! i)"
      using i il lp by (simp add: compute_osc_torques_def clamp_efforts_nth)
    have "- (franka_effort_limits self ! i) \<le> compute_osc_torques inverse_t self d dpose ! i
        \<and> compute_osc_torques inverse_t self d dpose ! i \<le> franka_effort_limits self ! i
        \<and> (franka_effort_limits self ! i < osc_pre_clamp inverse_t self d dpose ! i \<longrightarrow>
             compute_osc_torques inverse_t self d dpose ! i = franka_effort_limits self ! i)
        \<and> (osc_pre_clamp inverse_t self d dpose ! i < - (franka_effort_limits self ! i) \<longrightarrow>
             compute_osc_torques inverse_t self d dpose ! i = - (franka_effort_limits self ! i))"
      unfolding eq
      using tensor_clamp_bounds[OF nn] tensor_clamp_upper[OF nn] tensor_clamp_lower[OF nn]
      by blast
  }
  with l7 show ?thesis by blast
qed

theorem osc_torques_clamped_witness:
  "7 \<le> length (franka_effort_limits example_push) \<and>
   length (compute_osc_torques (\<lambda>m. m) example_push example_dynamics (replicate 6 0)) = 7 \<and>
   - 12 \<le> compute_osc_torques (\<lambda>m. m) example_push example_dynamics (replicate 6 0) ! 6 \<and>
   compute_osc_torques (\<lambda>m. m) example_push example_dynamics (replicate 6 0) ! 6 \<le> 12"
proof -
  have h1: "j_eef example_dynamics \<noteq> []" by (simp add: example_dynamics_def)
  have h2: "\<forall>row \<in> set (j_eef example_dynamics). length row = 7"
    by (simp add: example_dynamics_def)
  have h3: "7 \<le> length (franka_effort_limits example_push)" by (simp add: example_push_def)
  have h4: "\<forall>l \<in> set (franka_effort_limits example_push). 0 \<le> l"
    by (simp add: example_push_def)
  have l6: "franka_effort_limits example_push ! 6 = 12" by (simp add: example_push_def)
  have six: "(6::nat) < 7" by simp
  from osc_torques_clamped[OF h1 h2 h3 h4, of "\<lambda>m. m" "replicate 6 0"] six l6
  have "length (compute_osc_torques (\<lambda>m. m) example_push example_dynamics (replicate 6 0)) = 7
     \<and> - 12 \<le> compute_osc_torques (\<lambda>m. m) example_push example_dynamics (replicate 6 0) ! 6
     \<and> compute_osc_torques (\<lambda>m. m) example_push example_dynamics (replicate 6 0) ! 6 \<le> 12"
    by metis
  with h3 show ?thesis by blast
qed

section \<open>Reward and termination: the reset flag\<close>

lemma reset_zip_nth:
  "length rb = n \<Longrightarrow> length pb = n \<Longrightarrow> length suc = n \<Longrightarrow> i < n \<Longrightarrow>
   map (\<lambda>(r, p, c). reset_where mel p c r) (zip rb (zip pb suc)) ! i
     = reset_where mel (pb ! i) (suc ! i) (rb ! i)"
  by simp

lemma push_reward_Inr:
  "compute_franka_reward_push jit qm qc rb pb acts sts rs mel = Inr (rew, rst, suc) \<Longrightarrow>
   \<exists>n. rs ''n_hold_steps'' = Some n \<and> suc = map (\<lambda>s. hold_counters s > n) sts \<and>
     rst = map (\<lambda>(r, p, c). reset_where mel p c r) (zip rb (zip pb suc))"
  by (auto simp: compute_franka_reward_push_def getitem_def Let_def
      split: option.splits sum.splits if_splits)

lemma slide_reward_Inr:
  "compute_franka_reward_slide rb pb acts sts rs mel = Inr (rew, rst, suc) \<Longrightarrow>
   suc = map (\<lambda>s. vnorm (vsub (goal_cube_pos s) (cube_pos s)) < 0.05) sts \<and>
     rst = map (\<lambda>(r, p, c). reset_where mel p c r) (zip rb (zip pb suc))"
  by (auto simp: compute_franka_reward_slide_def getitem_def Let_def
      split: option.splits sum.splits if_splits)

lemma throw_reward_Inr:
  "compute_franka_reward_throw rb pb acts sts rs mel = Inr (rew, rst, suc) \<Longrightarrow>
   suc = map2 success_condition_throw pb sts \<and>
     rst = map (\<lambda>(r, p, c). reset_where mel p c r) (zip rb (zip pb suc))"
  by (auto simp: compute_franka_reward_throw_def getitem_def Let_def
      split: option.splits sum.splits if_splits)

lemma push_reward_returns_jit:
  "\<exists>rew rst suc. compute_franka_reward_push True qm qc rb pb acts sts (reward_settings_push c) mel
     = Inr (rew, rst, suc)"
  by (simp add: compute_franka_reward_push_def getitem_def reward_settings_push_def Let_def)

lemma push_reward_returns_python:
  "(\<exists>rew rst suc. compute_franka_reward_push False qm qc rb pb acts sts (reward_settings_push c) mel
      = Inr (rew, rst, suc)) = list_all (\<lambda>row. length row \<le> 2) acts"
  by (simp add: compute_franka_reward_push_def getitem_def reward_settings_push_def
      jerk_penalty_def Let_def)

text \<open>
  Claim C1. Whenever \<^verbatim>\<open>compute_franka_reward\<close> of the push task (compiled or run
  as Python) or of the slide task returns, then for every environment \<open>i\<close> of a
  batch whose buffers have one entry per environment: the success flag is the
  success condition of the task (hold counter above \<^verbatim>\<open>n_hold_steps\<close>, respectively
  goal distance below 0.05); the returned reset flag is 1 if the step count is at
  least \<open>max_episode_length - 1\<close> or the success flag is set; otherwise it is the
  incoming reset flag; so with an incoming flag of zero the returned flag is set
  exactly when the step count is at least \<open>max_episode_length - 1\<close> or the
  environment succeeded.
\<close>

theorem reset_flag_rule:
  assumes "length rb = length sts" "length pb = length sts" "i < length sts"
    and "length rb2 = length sts2" "length pb2 = length sts2" "i2 < length sts2"
  shows "(compute_franka_reward_push jit qm qc rb pb acts sts rs mel = Inr (rew, rst, suc) \<longrightarrow>
        (\<exists>n. rs ''n_hold_steps'' = Some n \<and> suc ! i = (hold_counters (sts ! i) > n)) \<and>
        (of_int (pb ! i) \<ge> mel - 1 \<or> suc ! i \<longrightarrow> rst ! i = 1) \<and>
        (\<not> (of_int (pb ! i) \<ge> mel - 1 \<or> suc ! i) \<longrightarrow> rst ! i = rb ! i) \<and>
        (rb ! i = 0 \<longrightarrow> (rst ! i \<noteq> 0) = (of_int (pb ! i) \<ge> mel - 1 \<or> suc ! i)))
    \<and> (compute_franka_reward_slide rb2 pb2 acts2 sts2 rs2 mel2 = Inr (rew2, rst2, suc2) \<longrightarrow>
        suc2 ! i2 = (vnorm (vsub (goal_cube_pos (sts2 ! i2)) (cube_pos (sts2 ! i2))) < 0.05) \<and>
        (of_int (pb2 ! i2) \<ge> mel2 - 1 \<or> suc2 ! i2 \<longrightarrow> rst2 ! i2 = 1) \<and>
        (\<not> (of_int (pb2 ! i2) \<ge> mel2 - 1 \<or> suc2 ! i2) \<longrightarrow> rst2 ! i2 = rb2 ! i2) \<and>
        (rb2 ! i2 = 0 \<longrightarrow> (rst2 ! i2 \<noteq> 0) = (of_int (pb2 ! i2) \<ge> mel2 - 1 \<or> suc2 ! i2)))"
proof (intro conjI impI)
  assume r: "compute_franka_reward_push jit qm qc rb pb acts sts rs mel = Inr (rew, rst, suc)"
  from push_reward_Inr[OF r] obtain n where
    n: "rs ''n_hold_steps'' = Some n" and
    suc: "suc = map (\<lambda>s. hold_counters s > n) sts" and
    rst: "rst = map (\<lambda>(r, p, c). reset_where mel p c r) (zip rb (zip pb suc))" by blast
  have ls: "length suc = length sts" by (simp add: suc)
  have nth: "rst ! i = reset_where mel (pb ! i) (suc ! i) (rb ! i)"
    unfolding rst using reset_zip_nth[OF assms(1) assms(2) ls assms(3)] .
  show "\<exists>n. rs ''n_hold_steps'' = Some n \<and> suc ! i = (hold_counters (sts ! i) > n)"
    using n suc assms(3) by simp
  show "rst ! i = 1" if "of_int (pb ! i) \<ge> mel - 1 \<or> suc ! i"
    using that nth by (auto simp: reset_where_def)
  show "rst ! i = rb ! i" if "\<not> (of_int (pb ! i) \<ge> mel - 1 \<or> suc ! i)"
    using that nth by (simp add: reset_where_def)
  show "(rst ! i \<noteq> 0) = (of_int (pb ! i) \<ge> mel - 1 \<or> suc ! i)" if "rb ! i = 0"
    using that nth by (simp add: reset_where_def)
next
  assume r: "compute_franka_reward_slide rb2 pb2 acts2 sts2 rs2 mel2 = Inr (rew2, rst2, suc2)"
  from slide_reward_Inr[OF r] have
    suc: "suc2 = map (\<lambda>s. vnorm (vsub (goal_cube_pos s) (cube_pos s)) < 0.05) sts2" and
    rst: "rst2 = map (\<lambda>(r, p, c). reset_where mel2 p c r) (zip rb2 (zip pb2 suc2))" by blast+
  have ls: "length suc2 = length sts2" by (simp add: suc)
  have nth: "rst2 ! i2 = reset_where mel2 (pb2 ! i2) (suc2 ! i2) (rb2 ! i2)"
    unfolding rst using reset_zip_nth[OF assms(4) assms(5) ls assms(6)] .
  show "suc2 ! i2 = (vnorm (vsub (goal_cube_pos (sts2 ! i2)) (cube_pos (sts2 ! i2))) < 0.05)"
    using suc assms(6) by simp
  show "rst2 ! i2 = 1" if "of_int (pb2 ! i2) \<ge> mel2 - 1 \<or> suc2 ! i2"
    using that nth by (auto simp: reset_where_def)
  show "rst2 ! i2 = rb2 ! i2" if "\<not> (of_int (pb2 ! i2) \<ge> mel2 - 1 \<or> suc2 ! i2)"
    using that nth by (simp add: reset_where_def)
  show "(rst2 ! i2 \<noteq> 0) = (of_int (pb2 ! i2) \<ge> mel2 - 1 \<or> suc2 ! i2)" if "rb2 ! i2 = 0"
    using that nth by (simp add: reset_where_def)
qed

lemma example_push_reward_returns:
  "\<exists>rew rst suc. compute_franka_reward_push False (\<lambda>a b. a) (\<lambda>a. a) [0, 0] [99, 5] [[0, 0], [0, 0]]
     [example_states, example_states\<lparr>hold_counters := 3\<rparr>] (reward_settings_push example_cfg) 100
       = Inr (rew, rst, suc)"
  by (simp add: compute_franka_reward_push_def getitem_def reward_settings_push_def
      example_cfg_def jerk_penalty_def)

lemma example_slide_reward_returns:
  "\<exists>rew rst suc. compute_franka_reward_slide [0] [5] [[0, 0, 0]] [example_slide_states]
     example_slide_settings 100 = Inr (rew, rst, suc)"
  by (simp add: compute_franka_reward_slide_def getitem_def reward_settings_slide_def
      example_cfg_def example_slide_settings_def where_contact_def Let_def)

theorem reset_flag_rule_witness:
  "(\<exists>rew rst suc. compute_franka_reward_push False (\<lambda>a b. a) (\<lambda>a. a) [0, 0] [99, 5]
       [[0, 0], [0, 0]] [example_states, example_states\<lparr>hold_counters := 3\<rparr>]
       (reward_settings_push example_cfg) 100 = Inr (rew, rst, suc) \<and> rst ! 0 = 1)
   \<and> (\<exists>rew rst suc. compute_franka_reward_slide [0] [5] [[0, 0, 0]] [example_slide_states]
       example_slide_settings 100 = Inr (rew, rst, suc) \<and> rst ! 0 = 0)"
proof -
  obtain rew rst suc where p: "compute_franka_reward_push False (\<lambda>a b. a) (\<lambda>a. a) [0, 0] [99, 5]
       [[0, 0], [0, 0]] [example_states, example_states\<lparr>hold_counters := 3\<rparr>]
       (reward_settings_push example_cfg) 100 = Inr (rew, rst, suc)"
    using example_push_reward_returns by blast
  obtain rew2 rst2 suc2 where s: "compute_franka_reward_slide [0] [5] [[0, 0, 0]]
       [example_slide_states] example_slide_settings 100 = Inr (rew2, rst2, suc2)"
    using example_slide_reward_returns by blast
  have far: "\<not> vnorm (vsub (goal_cube_pos example_slide_states) (cube_pos example_slide_states))
      < 0.05"
    by (simp add: example_slide_states_def)
  have "rst ! 0 = 1 \<and> rst2 ! 0 = 0"
    using reset_flag_rule[of "[0, 0]" "[example_states, example_states\<lparr>hold_counters := 3\<rparr>]"
        "[99, 5]" 0 "[0]" "[example_slide_states]" "[5]" 0 False "\<lambda>a b. a" "\<lambda>a. a"
        "[[0, 0], [0, 0]]" "reward_settings_push example_cfg" 100 rew rst suc "[[0, 0, 0]]"
        example_slide_settings 100 rew2 rst2 suc2] p s far
    by simp
  with p s show ?thesis by blast
qed

lemma example_slide_reward_shape_error:
  "compute_franka_reward_slide [0, 0] [0, 0] [[0, 0, 0], [0, 0, 0]]
     [example_slide_states, example_slide_states] (reward_settings_slide example_cfg) 100
       = Inl ShapeError"
  by (simp add: compute_franka_reward_slide_def where_contact_def Let_def)

text \<open>
  Claim C9, as the code has it. With the dictionary that the constructor of the slide
  task builds, \<^verbatim>\<open>compute_franka_reward\<close> never returns a reward, whatever the
  state and the step count. With one or with three environments it fails at the
  lookup of the missing key \<^verbatim>\<open>r_vel_scale\<close>; with any other number of
  environments it fails before that lookup, with the shape mismatch of the
  \<^verbatim>\<open>torch.where\<close> call that computes the contact penalty.
\<close>

theorem slide_reward_never_returns:
  "(\<exists>e. compute_franka_reward_slide rb pb acts sts (reward_settings_slide c) mel = Inl e) \<and>
   (length sts = 1 \<or> length sts = 3 \<longrightarrow>
      compute_franka_reward_slide rb pb acts sts (reward_settings_slide c) mel
        = Inl (KeyError ''r_vel_scale'')) \<and>
   (length sts \<noteq> 1 \<and> length sts \<noteq> 3 \<longrightarrow>
      compute_franka_reward_slide rb pb acts sts (reward_settings_slide c) mel = Inl ShapeError)"
  by (auto simp: compute_franka_reward_slide_def getitem_def reward_settings_slide_def
      where_contact_def Let_def)

theorem slide_reward_never_returns_witness:
  "compute_franka_reward_slide [0] [5] [[0, 0, 0]] [example_slide_states]
     (reward_settings_slide example_cfg) 100 = Inl (KeyError ''r_vel_scale'')"
  using slide_reward_never_returns[of "[0]" "[5]" "[[0, 0, 0]]" "[example_slide_states]"
      example_cfg 100]
  by simp

text \<open>
  Claim C9 as stated (the computation fails with a missing-key lookup for every
  state) fails for a batch of two environments: the computation raises the shape
  error, not the key error.
\<close>

theorem slide_reward_counterexample:
  "compute_franka_reward_slide [0, 0] [0, 0] [[0, 0, 0], [0, 0, 0]]
     [example_slide_states, example_slide_states] (reward_settings_slide example_cfg) 100
       = Inl ShapeError \<and>
   compute_franka_reward_slide [0, 0] [0, 0] [[0, 0, 0], [0, 0, 0]]
     [example_slide_states, example_slide_states] (reward_settings_slide example_cfg) 100
       \<noteq> Inl (KeyError ''r_vel_scale'')"
  by (simp add: example_slide_reward_shape_error)

section \<open>Reward: independence of the orientation\<close>

lemma map_with_quats:
  assumes "\<And>s a b. F (s\<lparr>cube_quat := a, goal_cube_quat := b\<rparr>) = F s"
  shows "map F (with_quats cq gq sts) = map F sts"
  by (simp add: with_quats_def list_eq_iff_nth_eq nth_enumerate_eq assms)

lemma push_reward_row_quats:
  "push_reward_row qm qc n rp rc rs mel (s\<lparr>cube_quat := a, goal_cube_quat := b\<rparr>)
     = push_reward_row qm qc n rp rc rs mel s"
  by (simp add: push_reward_row_def Let_def)

lemma getitem_other: "k \<noteq> k' \<Longrightarrow> getitem (rs(k' := v)) k = getitem rs k"
  by (simp add: getitem_def)

text \<open>
  Claim C10. Two calls of \<^verbatim>\<open>compute_franka_reward\<close> of the push task whose
  arguments differ only in the cube quaternions, the goal quaternions and the entry
  \<^verbatim>\<open>r_ori_scale\<close> of the reward settings (any value, or no entry at all) have the
  same outcome: the same reward, reset and success tensors, or the same error.
\<close>

theorem reward_ignores_orientation:
  "compute_franka_reward_push jit qm qc rb pb acts (with_quats cq gq sts)
       (rs(''r_ori_scale'' := v)) mel
     = compute_franka_reward_push jit qm qc rb pb acts (with_quats cq' gq' sts)
       (rs(''r_ori_scale'' := v')) mel"
proof -
  have rows: "\<And>n rp rc rsc cq gq.
      map (push_reward_row qm qc n rp rc rsc mel) (with_quats cq gq sts)
        = map (push_reward_row qm qc n rp rc rsc mel) sts"
    by (rule map_with_quats) (rule push_reward_row_quats)
  have holds: "\<And>n cq gq. map (\<lambda>s. hold_counters s > n) (with_quats cq gq sts)
      = map (\<lambda>s. hold_counters s > n) sts"
    by (rule map_with_quats) simp
  have both: "\<And>cq gq v. compute_franka_reward_push jit qm qc rb pb acts (with_quats cq gq sts)
       (rs(''r_ori_scale'' := v)) mel = compute_franka_reward_push jit qm qc rb pb acts sts rs mel"
    unfolding compute_franka_reward_push_def
    by (simp add: getitem_other rows holds cong: sum.case_cong)
  show ?thesis by (simp only: both)
qed

section \<open>Reward: the velocity-alignment term\<close>

lemma cauchy_schwarz3:
  fixes a1 a2 a3 b1 b2 b3 :: real
  shows "\<bar>a1 * b1 + a2 * b2 + a3 * b3\<bar>
     \<le> sqrt (a1 * a1 + a2 * a2 + a3 * a3) * sqrt (b1 * b1 + b2 * b2 + b3 * b3)"
proof -
  have eq: "(a1 * a1 + a2 * a2 + a3 * a3) * (b1 * b1 + b2 * b2 + b3 * b3)
      - (a1 * b1 + a2 * b2 + a3 * b3)\<^sup>2
      = (a1 * b2 - a2 * b1)\<^sup>2 + (a1 * b3 - a3 * b1)\<^sup>2 + (a2 * b3 - a3 * b2)\<^sup>2"
    by (simp add: power2_eq_square algebra_simps)
  have "0 \<le> (a1 * b2 - a2 * b1)\<^sup>2 + (a1 * b3 - a3 * b1)\<^sup>2 + (a2 * b3 - a3 * b2)\<^sup>2"
    by simp
  with eq have "(a1 * b1 + a2 * b2 + a3 * b3)\<^sup>2
      \<le> (a1 * a1 + a2 * a2 + a3 * a3) * (b1 * b1 + b2 * b2 + b3 * b3)"
    by linarith
  then have "sqrt ((a1 * b1 + a2 * b2 + a3 * b3)\<^sup>2)
      \<le> sqrt ((a1 * a1 + a2 * a2 + a3 * a3) * (b1 * b1 + b2 * b2 + b3 * b3))"
    by (rule real_sqrt_le_mono)
  then show ?thesis by (simp add: real_sqrt_mult)
qed

lemma vdot_vnorm: "\<bar>vdot a b\<bar> \<le> vnorm a * vnorm b"
proof -
  obtain a1 a2 a3 where a: "a = (a1, a2, a3)" by (cases a)
  obtain b1 b2 b3 where b: "b = (b1, b2, b3)" by (cases b)
  show ?thesis unfolding a b using cauchy_schwarz3[of a1 b1 a2 b2 a3 b3] by simp
qed

lemma vnorm_nonneg: "0 \<le> vnorm a"
  by (cases a) simp

lemma vdot_vdiv: "vdot (vdiv a c) (vdiv b d) = vdot a b / (c * d)"
  by (cases a; cases b) (simp add: add_divide_distrib)

lemma normalized_dot_le_1:
  assumes "0 < e"
  shows "vdot (vdiv a (vnorm a + e)) (vdiv b (vnorm b + e)) \<le> 1"
proof -
  have pa: "0 < vnorm a + e" and pb: "0 < vnorm b + e"
    using vnorm_nonneg[of a] vnorm_nonneg[of b] assms by linarith+
  have "vdot a b \<le> vnorm a * vnorm b" using vdot_vnorm[of a b] by linarith
  also have "\<dots> \<le> (vnorm a + e) * (vnorm b + e)"
    using vnorm_nonneg[of a] vnorm_nonneg[of b] assms by (intro mult_mono) linarith+
  finally have "vdot a b / ((vnorm a + e) * (vnorm b + e)) \<le> 1"
    using pa pb by (simp add: pos_divide_le_eq)
  then show ?thesis by (simp add: vdot_vdiv)
qed

text \<open>
  Claim C5, as the code has it. In the throw task the alignment term is the dot
  product of the goal direction and the cube velocity, each divided by its norm
  plus \<open>10\<^sup>-\<^sup>7\<close>, clamped below at zero, and it lies between 0 and 1. In the slide
  task the term is the dot product of the cube velocity itself (not normalised) and
  the goal direction divided by its norm plus \<open>10\<^sup>-\<^sup>6\<close>, clamped below at zero; it is
  never negative.
\<close>

theorem velocity_alignment_term:
  "direction_term s =
     max (vdot (vdiv (vsub (goal_cube_pos s) (cube_pos s))
                  (vnorm (vsub (goal_cube_pos s) (cube_pos s)) + 0.0000001))
            (vdiv (cube_vel s) (vnorm (cube_vel s) + 0.0000001))) 0 \<and>
   0 \<le> direction_term s \<and> direction_term s \<le> 1 \<and>
   vel_reward_slide s2 =
     max (vdot (cube_vel s2)
            (vdiv (vsub (goal_cube_pos s2) (cube_pos s2))
               (vnorm (vsub (goal_cube_pos s2) (cube_pos s2)) + 0.000001))) 0 \<and>
   0 \<le> vel_reward_slide s2"
  using normalized_dot_le_1[of "0.0000001" "vsub (goal_cube_pos s) (cube_pos s)" "cube_vel s"]
  by (simp add: direction_term_def dir_alignment_def vel_reward_slide_def
      vel_along_direction_def slide_direction_def Let_def)

text \<open>
  Claim C5 as stated (the term is a clamped dot product of two normalised vectors and
  lies between 0 and 1) fails in the slide task: for a cube moving at speed 2
  straight towards a goal at distance 1, the term is \<open>2 / 1.000001\<close>, above 1.
\<close>

theorem velocity_alignment_counterexample:
  "vel_reward_slide example_slide_states = 2000000 / 1000001 \<and>
   \<not> vel_reward_slide example_slide_states \<le> 1"
  by (simp add: vel_reward_slide_def vel_along_direction_def slide_direction_def
      example_slide_states_def Let_def)

section \<open>Indexed writes and the methods' effects\<close>

lemma length_index_put [simp]: "length (index_put ids v buf) = length buf"
  unfolding index_put_def by (induction ids arbitrary: buf) simp_all

lemma nth_index_put:
  "i < length buf \<Longrightarrow> index_put ids v buf ! i = (if i \<in> set ids then v else buf ! i)"
  unfolding index_put_def
proof (induction ids arbitrary: buf)
  case Nil then show ?case by simp
next
  case (Cons a ids)
  then show ?case by (cases "a = i") (simp_all add: nth_list_update)
qed

lemma length_fold_pairs: "length (fold (\<lambda>(i, r) b. b[i := r]) ps buf) = length buf"
  by (induction ps arbitrary: buf) (simp_all add: case_prod_beta)

lemma length_index_put_rows [simp]: "length (index_put_rows ids rows buf) = length buf"
  unfolding index_put_rows_def by (rule length_fold_pairs)

lemma length_fold_update [simp]: "length (fold (\<lambda>i ss. ss[i := f (ss ! i)]) ids ss) = length ss"
  by (induction ids arbitrary: ss) simp_all

lemma nth_fold_update:
  assumes "\<And>x. f (f x) = f x" "i < length ss"
  shows "fold (\<lambda>i ss. ss[i := f (ss ! i)]) ids ss ! i = (if i \<in> set ids then f (ss ! i) else ss ! i)"
  using assms(2)
proof (induction ids arbitrary: ss)
  case Nil then show ?case by simp
next
  case (Cons a ids)
  then show ?case by (cases "a = i") (simp_all add: nth_list_update assms(1))
qed

lemma reset_agent_fields [simp]:
  "states (reset_agent ids noise self) = states self"
  "progress_buf (reset_agent ids noise self) = progress_buf self"
  "reset_buf (reset_agent ids noise self) = reset_buf self"
  "num_envs (reset_agent ids noise self) = num_envs self"
  "proprio_hist_buf (reset_agent ids noise self) = proprio_hist_buf self"
  "length (pos_control (reset_agent ids noise self)) = length (pos_control self)"
  "length (effort_control (reset_agent ids noise self)) = length (effort_control self)"
  "reward_settings (reset_agent ids noise self) = reward_settings self"
  "max_episode_length (reset_agent ids noise self) = max_episode_length self"
  "control_input (reset_agent ids noise self) = control_input self"
  "prop_dim (reset_agent ids noise self) = prop_dim self"
  "prop_hist_len (reset_agent ids noise self) = prop_hist_len self"
  "actions (reset_agent ids noise self) = actions self"
  by (simp_all add: reset_agent_def Let_def)

lemma reset_agent_throw_fields [simp]:
  "contact_time (reset_agent ids noise self) = contact_time self"
  "vel_i_error (reset_agent ids noise self) = vel_i_error self"
  by (simp_all add: reset_agent_def Let_def)

lemma reset_idx_push_Inr:
  assumes "reset_idx_push ids noise self = Inr self'"
  shows "list_all (\<lambda>i. i < num_envs self) ids"
    and "states self' = fold (\<lambda>i ss. ss[i := (ss ! i)\<lparr>hold_counters := 0\<rparr>]) ids (states self)"
    and "progress_buf self' = index_put ids 0 (progress_buf self)"
    and "reset_buf self' = index_put ids 0 (reset_buf self)"
    and "num_envs self' = num_envs self"
    and "length (pos_control self') = length (pos_control self)"
    and "length (effort_control self') = length (effort_control self)"
    and "proprio_hist_buf self' = proprio_hist_buf self"
    and "reward_settings self' = reward_settings self"
    and "max_episode_length self' = max_episode_length self"
    and "control_input self' = control_input self"
    and "prop_dim self' = prop_dim self" and "prop_hist_len self' = prop_hist_len self"
    and "actions self' = actions self"
  using assms by (auto simp: reset_idx_push_def Let_def split: if_splits)

lemma reset_idx_throw_Inr:
  assumes "reset_idx_throw ids noise self = Inr self'"
  shows "list_all (\<lambda>i. i < num_envs self) ids"
    and "states self' = states self"
    and "contact_time self' = index_put ids 0 (contact_time self)"
    and "vel_i_error self' = vel_i_error self"
    and "progress_buf self' = index_put ids 0 (progress_buf self)"
    and "reset_buf self' = index_put ids 0 (reset_buf self)"
    and "num_envs self' = num_envs self"
    and "length (pos_control self') = length (pos_control self)"
    and "length (effort_control self') = length (effort_control self)"
    and "proprio_hist_buf self' = proprio_hist_buf self"
    and "reward_settings self' = reward_settings self"
    and "max_episode_length self' = max_episode_length self"
    and "prop_dim self' = prop_dim self" and "prop_hist_len self' = prop_hist_len self"
    and "actions self' = actions self"
  using assms by (auto simp: reset_idx_throw_def Let_def split: if_splits)

section \<open>Invariants of the reachable states\<close>

lemma reset_push_inv:
  assumes wf: "wf_task self" and nn: "list_all (\<lambda>s. 0 \<le> hold_counters s) (states self)"
    and r: "reset_idx_push ids noise self = Inr self'"
  shows "wf_task self' \<and> list_all (\<lambda>s. 0 \<le> hold_counters s) (states self')"
proof -
  note f = reset_idx_push_Inr[OF r]
  have wf': "wf_task self'" using wf by (simp add: wf_task_def f)
  have "0 \<le> hold_counters (states self' ! i)" if "i < length (states self')" for i
  proof -
    from that have i: "i < length (states self)" by (simp add: f(2))
    have "states self' ! i = (if i \<in> set ids then (states self ! i)\<lparr>hold_counters := 0\<rparr> else states self ! i)"
      unfolding f(2) by (rule nth_fold_update) (simp_all add: i)
    then show ?thesis using nn i by (simp add: list_all_length)
  qed
  then show ?thesis using wf' by (simp add: list_all_length)
qed

lemma refresh_push_Inr:
  assumes "refresh_push bufs self = Inr self'"
  shows "\<exists>thr. reward_settings self ''success_threshold'' = Some thr \<and>
     self' = self\<lparr>states := map2 (update_states_row thr) bufs (states self)\<rparr>"
  using assms by (auto simp: refresh_push_def update_states_push_def getitem_def split: option.splits)

lemma hold_update_states_row:
  "hold_counters (update_states_row thr b old)
     = (if vnorm (vsub (goal_cube_state_pos b) (cube_state_pos b)) < thr
        then hold_counters old + 1 else 0)"
  by (simp add: update_states_row_def Let_def)

lemma refresh_push_inv:
  assumes wf: "wf_task self" and nn: "list_all (\<lambda>s. 0 \<le> hold_counters s) (states self)"
    and len: "length bufs = num_envs self"
    and r: "refresh_push bufs self = Inr self'"
  shows "wf_task self' \<and> list_all (\<lambda>s. 0 \<le> hold_counters s) (states self')"
proof -
  from refresh_push_Inr[OF r] obtain thr where
    s': "self' = self\<lparr>states := map2 (update_states_row thr) bufs (states self)\<rparr>" by blast
  have ls: "length (states self) = num_envs self" using wf by (simp add: wf_task_def)
  have wf': "wf_task self'" using wf len by (simp add: wf_task_def s')
  have "0 \<le> hold_counters (states self' ! i)" if "i < length (states self')" for i
    using that nn len ls by (simp add: s' hold_update_states_row list_all_length)
  then show ?thesis using wf' by (simp add: list_all_length)
qed

lemma compute_reward_push_Inr:
  assumes "compute_reward_push jit qm qc self = Inr self'"
  shows "\<exists>rew rst suc. compute_franka_reward_push jit qm qc (reset_buf self) (progress_buf self)
      (actions self) (states self) (reward_settings self) (max_episode_length self) = Inr (rew, rst, suc)
    \<and> self' = self\<lparr>rew_buf := rew, reset_buf := rst, extras_success := suc\<rparr>"
  using assms by (auto simp: compute_reward_push_def split: sum.splits)

lemma compute_reward_push_inv:
  assumes wf: "wf_task self" and r: "compute_reward_push jit qm qc self = Inr self'"
  shows "wf_task self' \<and> states self' = states self"
proof -
  from compute_reward_push_Inr[OF r] obtain rew rst suc where
    c: "compute_franka_reward_push jit qm qc (reset_buf self) (progress_buf self)
      (actions self) (states self) (reward_settings self) (max_episode_length self) = Inr (rew, rst, suc)"
    and s': "self' = self\<lparr>rew_buf := rew, reset_buf := rst, extras_success := suc\<rparr>" by blast
  from push_reward_Inr[OF c] obtain n where
    suc: "suc = map (\<lambda>s. hold_counters s > n) (states self)" and
    rst: "rst = map (\<lambda>(r, p, c). reset_where (max_episode_length self) p c r)
             (zip (reset_buf self) (zip (progress_buf self) suc))" by blast
  have "length rst = num_envs self" using wf by (simp add: rst suc wf_task_def)
  then show ?thesis using wf by (simp add: s' wf_task_def)
qed

lemma store_proprio_hist_Inr:
  assumes "store_proprio_hist self = Inr self'"
  shows "\<exists>h. self' = self\<lparr>proprio_hist_buf := h\<rparr> \<and>
     length h = min (length (proprio_hist_buf self)) (length (states self))"
  using assms by (auto simp: store_proprio_hist_def Let_def split: if_splits)

lemma store_proprio_hist_inv:
  assumes wf: "wf_task self" and r: "store_proprio_hist self = Inr self'"
  shows "wf_task self' \<and> states self' = states self"
proof -
  from store_proprio_hist_Inr[OF r] obtain h where
    "self' = self\<lparr>proprio_hist_buf := h\<rparr>"
    "length h = min (length (proprio_hist_buf self)) (length (states self))" by blast
  then show ?thesis using wf by (simp add: wf_task_def)
qed

lemma post_step_push_inv:
  assumes wf: "wf_task self" and nn: "list_all (\<lambda>s. 0 \<le> hold_counters s) (states self)"
    and len: "length bufs = num_envs self" "length bufs2 = num_envs self"
    and r: "post_physics_step_push jit qm qc noise bufs bufs2 self = Inr self'"
  shows "wf_task self' \<and> list_all (\<lambda>s. 0 \<le> hold_counters s) (states self')"
proof -
  define s0 where "s0 = self\<lparr>progress_buf := map (\<lambda>p. p + 1) (progress_buf self)\<rparr>"
  define hack where "hack = (control_input s0 = Primitive \<and> max_episode_length s0 = 1)"
  define ids where "ids = (if hack then [0..<num_envs s0] else nonzero (reset_buf s0))"
  have wf0: "wf_task s0" and nn0: "list_all (\<lambda>s. 0 \<le> hold_counters s) (states s0)"
    and n0: "num_envs s0 = num_envs self"
    using wf nn by (simp_all add: s0_def wf_task_def)
  from r obtain s1 s2 s3 s4 where
    r1: "(if length ids > 0 then reset_idx_push ids noise s0 else Inr s0) = Inr s1" and
    r2: "compute_observations_push bufs s1 = Inr s2" and
    r3: "compute_reward_push jit qm qc s2 = Inr s3" and
    r4: "store_proprio_hist s3 = Inr s4" and
    r5: "(if hack then compute_observations_push bufs2 s4 else Inr s4) = Inr self'"
    unfolding post_physics_step_push_def Let_def s0_def[symmetric] hack_def[symmetric]
      ids_def[symmetric]
    by (auto split: sum.splits)
  have i1: "wf_task s1 \<and> list_all (\<lambda>s. 0 \<le> hold_counters s) (states s1) \<and> num_envs s1 = num_envs self"
  proof (cases "length ids > 0")
    case True
    with r1 have rr: "reset_idx_push ids noise s0 = Inr s1" by simp
    show ?thesis using reset_push_inv[OF wf0 nn0 rr] reset_idx_push_Inr(5)[OF rr] n0 by simp
  next
    case False
    with r1 have "s1 = s0" by simp
    then show ?thesis using wf0 nn0 n0 by simp
  qed
  have r2': "refresh_push bufs s1 = Inr s2" using r2 by (simp add: compute_observations_push_def)
  have i2: "wf_task s2 \<and> list_all (\<lambda>s. 0 \<le> hold_counters s) (states s2) \<and> num_envs s2 = num_envs self"
    using refresh_push_inv[OF _ _ _ r2'] i1 len refresh_push_Inr[OF r2'] by auto
  have i3: "wf_task s3 \<and> list_all (\<lambda>s. 0 \<le> hold_counters s) (states s3) \<and> num_envs s3 = num_envs self"
    using compute_reward_push_inv[OF _ r3] i2 compute_reward_push_Inr[OF r3] by auto
  have i4: "wf_task s4 \<and> list_all (\<lambda>s. 0 \<le> hold_counters s) (states s4) \<and> num_envs s4 = num_envs self"
    using store_proprio_hist_inv[OF _ r4] i3 store_proprio_hist_Inr[OF r4] by auto
  show ?thesis
  proof (cases hack)
    case True
    with r5 have rr: "refresh_push bufs2 s4 = Inr self'" by (simp add: compute_observations_push_def)
    show ?thesis using refresh_push_inv[OF _ _ _ rr] i4 len by auto
  next
    case False
    with r5 have "self' = s4" by simp
    then show ?thesis using i4 by simp
  qed
qed

lemma reachable_push_inv:
  "reachable_push self \<Longrightarrow> wf_task self \<and> list_all (\<lambda>s. 0 \<le> hold_counters s) (states self)"
proof (induction rule: reachable_push.induct)
  case (init_data self)
  then show ?case by (simp add: list_all_length)
next
  case (reset self env_ids reset_noise self')
  then show ?case using reset_push_inv by blast
next
  case (refresh self bufs self')
  then show ?case using refresh_push_inv by blast
next
  case (pre_step self u a p d)
  then show ?case by (simp add: wf_task_def)
next
  case (post_step self bufs bufs2 jit quat_mul quat_conjugate reset_noise self')
  then show ?case using post_step_push_inv by blast
qed

lemma compute_reward_throw_Inr:
  assumes "compute_reward_throw self = Inr self'"
  shows "\<exists>rew rst suc. compute_franka_reward_throw (reset_buf self) (progress_buf self)
      (actions self) (states self) (reward_settings self) (max_episode_length self) = Inr (rew, rst, suc)
    \<and> self' = self\<lparr>rew_buf := rew, reset_buf := rst, extras_success := suc\<rparr>"
  using assms by (auto simp: compute_reward_throw_def split: sum.splits)

lemma compute_reward_throw_inv:
  assumes wf: "wf_throw self" and r: "compute_reward_throw self = Inr self'"
  shows "wf_throw self' \<and> contact_time self' = contact_time self \<and> num_envs self' = num_envs self"
proof -
  from compute_reward_throw_Inr[OF r] obtain rew rst suc where
    c: "compute_franka_reward_throw (reset_buf self) (progress_buf self)
      (actions self) (states self) (reward_settings self) (max_episode_length self) = Inr (rew, rst, suc)"
    and s': "self' = self\<lparr>rew_buf := rew, reset_buf := rst, extras_success := suc\<rparr>" by blast
  from throw_reward_Inr[OF c] have
    suc: "suc = map2 success_condition_throw (progress_buf self) (states self)" and
    rst: "rst = map (\<lambda>(r, p, c). reset_where (max_episode_length self) p c r)
             (zip (reset_buf self) (zip (progress_buf self) suc))" by blast+
  have "length rst = num_envs self" using wf by (simp add: rst suc wf_task_def wf_throw_def)
  then show ?thesis using wf by (simp add: s' wf_task_def wf_throw_def)
qed

lemma store_proprio_hist_throw_inv:
  assumes wf: "wf_throw self" and r: "store_proprio_hist self = Inr self'"
  shows "wf_throw self' \<and> contact_time self' = contact_time self \<and> num_envs self' = num_envs self"
proof -
  from store_proprio_hist_Inr[OF r] obtain h where
    "self' = self\<lparr>proprio_hist_buf := h\<rparr>"
    "length h = min (length (proprio_hist_buf self)) (length (states self))" by blast
  then show ?thesis using wf by (simp add: wf_task_def wf_throw_def)
qed

lemma reset_throw_inv:
  assumes wf: "wf_throw self" and r: "reset_idx_throw ids noise self = Inr self'"
  shows "wf_throw self' \<and> num_envs self' = num_envs self"
  using wf by (simp add: wf_throw_def wf_task_def reset_idx_throw_Inr[OF r])

lemma reset_throw_contact:
  assumes wf: "wf_throw self" and r: "reset_idx_throw ids noise self = Inr self'"
    and i: "i < num_envs self"
  shows "contact_time self' ! i = (if i \<in> set ids then 0 else contact_time self ! i)"
  using wf i by (simp add: reset_idx_throw_Inr(3)[OF r] nth_index_put wf_throw_def)

lemma mem_nonzero: "i \<in> set (nonzero buf) \<longleftrightarrow> i < length buf \<and> buf ! i \<noteq> 0"
  by (auto simp: nonzero_def)

lemma post_step_throw_inv:
  assumes wf: "wf_throw self" and nn: "list_all (\<lambda>c. 0 \<le> c) (contact_time self)"
    and len: "length bufs = num_envs self"
    and r: "post_physics_step_throw noise bufs self = Inr self'"
  shows "wf_throw self' \<and> list_all (\<lambda>c. 0 \<le> c) (contact_time self')"
proof -
  define s0 where "s0 = self\<lparr>progress_buf := map (\<lambda>p. p + 1) (progress_buf self)\<rparr>"
  define in_contact :: "real list" where
    "in_contact = map (\<lambda>s. if vnorm (cube_contact s) < 0.2 then 1 else 0) (states s0)"
  define s1 where "s1 = s0\<lparr>contact_time := map (\<lambda>(c, i, r). (c + i) * (1 - of_int r))
                     (zip (contact_time s0) (zip in_contact (reset_buf s0)))\<rparr>"
  define ids where "ids = nonzero (reset_buf s1)"
  have n: "length (states self) = num_envs self" "length (reset_buf self) = num_envs self"
    "length (contact_time self) = num_envs self"
    using wf by (simp_all add: wf_throw_def wf_task_def)
  have wf1: "wf_throw s1" and n1: "num_envs s1 = num_envs self"
    using wf by (simp_all add: s1_def s0_def in_contact_def wf_throw_def wf_task_def)
  have rb1: "reset_buf s1 = reset_buf self" by (simp add: s1_def s0_def)
  have ct1: "contact_time s1 ! i = (contact_time self ! i + in_contact ! i) * (1 - of_int (reset_buf self ! i))"
    if "i < num_envs self" for i
    using that n by (simp add: s1_def s0_def in_contact_def)
  have ic: "0 \<le> in_contact ! i" if "i < num_envs self" for i
    using that n by (simp add: in_contact_def s0_def)
  from r obtain s2 s3 where
    r1: "(if length ids > 0 then reset_idx_throw ids noise s1 else Inr s1) = Inr s2" and
    r2: "compute_reward_throw (compute_observations_throw bufs s2) = Inr s3" and
    r3: "store_proprio_hist s3 = Inr self'"
    unfolding post_physics_step_throw_def Let_def s0_def[symmetric] in_contact_def[symmetric]
      s1_def[symmetric] ids_def[symmetric]
    by (auto split: sum.splits)
  have i2: "wf_throw s2 \<and> num_envs s2 = num_envs self \<and>
      (\<forall>i < num_envs self. contact_time s2 ! i = (if i \<in> set ids then 0 else contact_time s1 ! i))"
  proof (cases "length ids > 0")
    case True
    with r1 have rr: "reset_idx_throw ids noise s1 = Inr s2" by simp
    show ?thesis using reset_throw_inv[OF wf1 rr] reset_throw_contact[OF wf1 rr] n1 by simp
  next
    case False
    with r1 have "s2 = s1" "ids = []" by simp_all
    then show ?thesis using wf1 n1 by simp
  qed
  have c2: "0 \<le> contact_time s2 ! i" if "i < num_envs self" for i
  proof (cases "reset_buf self ! i = 0")
    case True
    then have "i \<notin> set ids" by (simp add: ids_def mem_nonzero rb1)
    then show ?thesis using i2 that ct1[OF that] True ic[OF that] nn n
      by (simp add: list_all_length)
  next
    case False
    then have "i \<in> set ids" using that n by (simp add: ids_def mem_nonzero rb1)
    then show ?thesis using i2 that by simp
  qed
  have wfo: "wf_throw (compute_observations_throw bufs s2)"
    and cto: "contact_time (compute_observations_throw bufs s2) = contact_time s2"
    and no: "num_envs (compute_observations_throw bufs s2) = num_envs self"
    using i2 len by (simp_all add: compute_observations_throw_def wf_throw_def wf_task_def)
  have i3: "wf_throw s3 \<and> contact_time s3 = contact_time s2 \<and> num_envs s3 = num_envs self"
    using compute_reward_throw_inv[OF wfo r2] cto no by simp
  have i4: "wf_throw self' \<and> contact_time self' = contact_time s2 \<and> num_envs self' = num_envs self"
    using store_proprio_hist_throw_inv[OF _ r3] i3 by simp
  have "length (contact_time s2) = num_envs self" using i2 by (simp add: wf_throw_def)
  then show ?thesis using i4 c2 by (simp add: list_all_length)
qed

lemma compute_jvel_torques_fields:
  "contact_time (snd (compute_jvel_torques jvel qd self)) = contact_time self"
  "vel_i_error (snd (compute_jvel_torques jvel qd self))
     = map2 (map2 (+)) (vel_i_error self) (map2 (vel_error_row (controlled_joints self)) jvel qd)"
  "length (fst (compute_jvel_torques jvel qd self)) = min (min (length jvel) (length qd)) (length (vel_i_error self))"
  by (simp_all add: compute_jvel_torques_def Let_def)

lemma pre_step_throw_inv:
  assumes wf: "wf_throw self" and len: "length a = num_envs self" "length qd = num_envs self"
  shows "wf_throw (pre_physics_step_throw a qd self) \<and>
    contact_time (pre_physics_step_throw a qd self) = contact_time self"
  using wf len
  by (simp add: pre_physics_step_throw_def compute_jvel_torques_def Let_def wf_throw_def wf_task_def
      case_prod_beta)

lemma reachable_throw_inv:
  "reachable_throw self \<Longrightarrow> wf_throw self \<and> list_all (\<lambda>c. 0 \<le> c) (contact_time self)"
proof (induction rule: reachable_throw.induct)
  case (init_data self)
  then show ?case by (simp add: list_all_length)
next
  case (reset self env_ids reset_noise self')
  have "wf_throw self'" using reset_throw_inv[OF _ reset.hyps(2)] reset.IH by simp
  moreover have "0 \<le> contact_time self' ! i" if "i < num_envs self" for i
    using reset_throw_contact[OF _ reset.hyps(2) that] reset.IH that
    by (simp add: list_all_length wf_throw_def)
  ultimately show ?case using reset_throw_inv[OF _ reset.hyps(2)] reset.IH
    by (simp add: list_all_length wf_throw_def)
next
  case (pre_step self a qd_all)
  from pre_step.IH have wf: "wf_throw self" by simp
  from pre_step_throw_inv[OF wf pre_step.hyps(2) pre_step.hyps(3)] pre_step.IH
  show ?case by simp
next
  case (post_step self bufs reset_noise self')
  then show ?case using post_step_throw_inv by blast
qed

text \<open>
  Claim C7. In every reachable state of a push object the hold counter of every
  environment is non-negative, and in every reachable state of a throw object the
  contact timer of every environment is non-negative. A reset of a reachable object
  on an index set leaves, for every index of the set, the hold counter (push), the
  contact timer (throw), the step count and the reset flag at zero.
\<close>

theorem counters_nonnegative_and_reset:
  "(reachable_push p \<longrightarrow> (\<forall>i < num_envs p. 0 \<le> hold_counters (states p ! i))) \<and>
   (reachable_throw t \<longrightarrow> (\<forall>i < num_envs t. 0 \<le> contact_time t ! i)) \<and>
   (reachable_push p \<and> reset_idx_push ids noise p = Inr p' \<and> i \<in> set ids \<longrightarrow>
      hold_counters (states p' ! i) = 0 \<and> progress_buf p' ! i = 0 \<and> reset_buf p' ! i = 0) \<and>
   (reachable_throw t \<and> reset_idx_throw ids2 noise2 t = Inr t' \<and> i2 \<in> set ids2 \<longrightarrow>
      contact_time t' ! i2 = 0 \<and> progress_buf t' ! i2 = 0 \<and> reset_buf t' ! i2 = 0)"
proof -
  have A: "\<forall>i < num_envs p. 0 \<le> hold_counters (states p ! i)" if "reachable_push p"
    using reachable_push_inv[OF that] by (simp add: list_all_length wf_task_def)
  have B: "\<forall>i < num_envs t. 0 \<le> contact_time t ! i" if "reachable_throw t"
    using reachable_throw_inv[OF that] by (simp add: list_all_length wf_throw_def)
  have C: "hold_counters (states p' ! i) = 0 \<and> progress_buf p' ! i = 0 \<and> reset_buf p' ! i = 0"
    if a: "reachable_push p \<and> reset_idx_push ids noise p = Inr p' \<and> i \<in> set ids"
  proof -
    from a have r: "reset_idx_push ids noise p = Inr p'" and mem: "i \<in> set ids" by simp_all
    from a reachable_push_inv have wf: "wf_task p" by blast
    note f = reset_idx_push_Inr[OF r]
    from f(1) mem have i: "i < num_envs p" by (simp add: list_all_iff)
    have n: "length (states p) = num_envs p" "length (reset_buf p) = num_envs p"
      "length (progress_buf p) = num_envs p"
      using wf by (simp_all add: wf_task_def)
    have "states p' ! i = (states p ! i)\<lparr>hold_counters := 0\<rparr>"
      unfolding f(2)
      using nth_fold_update[of "\<lambda>s. s\<lparr>hold_counters := 0\<rparr>" i "states p" ids] mem i n
      by simp
    then show ?thesis using mem i n by (simp add: f nth_index_put)
  qed
  have D: "contact_time t' ! i2 = 0 \<and> progress_buf t' ! i2 = 0 \<and> reset_buf t' ! i2 = 0"
    if a: "reachable_throw t \<and> reset_idx_throw ids2 noise2 t = Inr t' \<and> i2 \<in> set ids2"
  proof -
    from a have r: "reset_idx_throw ids2 noise2 t = Inr t'" and mem: "i2 \<in> set ids2" by simp_all
    from a reachable_throw_inv have wf: "wf_throw t" by blast
    note f = reset_idx_throw_Inr[OF r]
    from f(1) mem have i: "i2 < num_envs t" by (simp add: list_all_iff)
    have n: "length (contact_time t) = num_envs t" "length (reset_buf t) = num_envs t"
      "length (progress_buf t) = num_envs t"
      using wf by (simp_all add: wf_task_def wf_throw_def)
    show ?thesis using mem i n by (simp add: f nth_index_put)
  qed
  from A B C D show ?thesis by blast
qed

lemma example_push_reachable: "reachable_push example_push"
  by (rule reachable_push.init_data) (simp_all add: wf_task_def example_push_def example_states_def)

lemma example_throw_reachable: "reachable_throw example_throw"
  by (rule reachable_throw.init_data) (simp_all add: wf_throw_def wf_task_def example_throw_def)

lemma example_push_reset:
  "\<exists>p'. reset_idx_push [1] (\<lambda>k j. 0.5) example_push = Inr p'"
  by (simp add: reset_idx_push_def example_push_def Let_def)

lemma example_throw_reset:
  "\<exists>t'. reset_idx_throw [0] (\<lambda>k j. 0.5) example_throw = Inr t'"
  by (simp add: reset_idx_throw_def example_throw_def Let_def)

theorem counters_nonnegative_and_reset_witness:
  "0 \<le> hold_counters (states example_push ! 1) \<and> 0 \<le> contact_time example_throw ! 0 \<and>
   (\<exists>p'. reset_idx_push [1] (\<lambda>k j. 0.5) example_push = Inr p' \<and>
      hold_counters (states p' ! 1) = 0 \<and> progress_buf p' ! 1 = 0 \<and> reset_buf p' ! 1 = 0) \<and>
   (\<exists>t'. reset_idx_throw [0] (\<lambda>k j. 0.5) example_throw = Inr t' \<and>
      contact_time t' ! 0 = 0 \<and> progress_buf t' ! 0 = 0 \<and> reset_buf t' ! 0 = 0)"
proof -
  obtain p' where p: "reset_idx_push [1] (\<lambda>k j. 0.5) example_push = Inr p'"
    using example_push_reset by blast
  obtain t' where t: "reset_idx_throw [0] (\<lambda>k j. 0.5) example_throw = Inr t'"
    using example_throw_reset by blast
  have n: "(1::nat) < num_envs example_push" "(0::nat) < num_envs example_throw"
    by (simp_all add: example_push_def example_throw_def)
  have m: "(1::nat) \<in> set [1]" "(0::nat) \<in> set [0]" by simp_all
  from counters_nonnegative_and_reset[of example_push example_throw "[1]" "\<lambda>k j. 0.5" p' 1
      "[0]" "\<lambda>k j. 0.5" t' 0]
    example_push_reachable example_throw_reachable p t n m
  show ?thesis by blast
qed

section \<open>Proprioceptive history\<close>

lemma length_cube_states_row: "length (cube_states_row s) = 7"
  by (cases "cube_pos s"; cases "cube_quat s") (simp add: cube_states_row_def)

lemma wf_hist_nth:
  "wf_hist self \<Longrightarrow> i < length (proprio_hist_buf self) \<Longrightarrow>
   length (proprio_hist_buf self ! i) = prop_hist_len self"
  by (simp add: wf_hist_def list_all_length)

text \<open>
  Claim C8. The source vector of \<^verbatim>\<open>store_proprio_hist\<close> has seven entries. If
  the history buffer is narrower than that, the call raises the dimension-mismatch
  error (the \<^verbatim>\<open>raise\<close> precedes every assignment to the buffer). Otherwise, for
  a buffer with at least one slot, the call returns and the newest slot of every
  environment is the source vector followed by \<open>prop_dim - 7\<close> zeros: its first
  seven entries are the source vector, nothing is cut off, and the older slots move
  up by one. (A buffer without slots makes the assignment of the newest slot raise
  an index error.)
\<close>

theorem store_proprio_hist_dims:
  assumes "wf_task self" "wf_hist self" "i < num_envs self"
  shows "(prop_dim self < 7 \<longrightarrow> store_proprio_hist self = Inl ValueError) \<and>
    (7 \<le> prop_dim self \<and> prop_hist_len self = 0 \<longrightarrow> store_proprio_hist self = Inl IndexError) \<and>
    (7 \<le> prop_dim self \<and> 0 < prop_hist_len self \<longrightarrow>
       (\<exists>self'. store_proprio_hist self = Inr self' \<and>
          last (proprio_hist_buf self' ! i)
            = cube_states_row (states self ! i) @ replicate (prop_dim self - 7) 0 \<and>
          length (last (proprio_hist_buf self' ! i)) = prop_dim self \<and>
          take 7 (last (proprio_hist_buf self' ! i)) = cube_states_row (states self ! i) \<and>
          butlast (proprio_hist_buf self' ! i) = tl (proprio_hist_buf self ! i)))"
proof (intro conjI impI)
  show "store_proprio_hist self = Inl ValueError" if "prop_dim self < 7"
    using that by (simp add: store_proprio_hist_def Let_def)
  show "store_proprio_hist self = Inl IndexError" if "7 \<le> prop_dim self \<and> prop_hist_len self = 0"
    using that by (simp add: store_proprio_hist_def Let_def)
  assume a: "7 \<le> prop_dim self \<and> 0 < prop_hist_len self"
  have ls: "length (states self) = num_envs self" and lh: "length (proprio_hist_buf self) = num_envs self"
    using assms(1) by (simp_all add: wf_task_def)
  have "length (proprio_hist_buf self ! i) = prop_hist_len self"
    using wf_hist_nth[OF assms(2)] lh assms(3) by simp
  with a obtain x xs where h: "proprio_hist_buf self ! i = x # xs"
    by (cases "proprio_hist_buf self ! i") auto
  show "\<exists>self'. store_proprio_hist self = Inr self' \<and>
          last (proprio_hist_buf self' ! i)
            = cube_states_row (states self ! i) @ replicate (prop_dim self - 7) 0 \<and>
          length (last (proprio_hist_buf self' ! i)) = prop_dim self \<and>
          take 7 (last (proprio_hist_buf self' ! i)) = cube_states_row (states self ! i) \<and>
          butlast (proprio_hist_buf self' ! i) = tl (proprio_hist_buf self ! i)"
    using a h ls lh assms(3)
    by (auto simp: store_proprio_hist_def Let_def length_cube_states_row)
qed

lemma example_push_wf: "wf_task example_push \<and> wf_hist example_push"
  by (simp add: wf_task_def wf_hist_def example_push_def)

theorem store_proprio_hist_dims_witness:
  "\<exists>self'. store_proprio_hist example_push = Inr self' \<and>
     last (proprio_hist_buf self' ! 0) = [0, 0, 1, 0, 0, 0, 1, 0]"
proof -
  have h: "wf_task example_push" "wf_hist example_push" "0 < num_envs example_push"
    using example_push_wf by (simp_all add: example_push_def)
  have d: "7 \<le> prop_dim example_push \<and> 0 < prop_hist_len example_push"
    by (simp add: example_push_def)
  have row: "cube_states_row (states example_push ! 0) @ replicate (prop_dim example_push - 7) 0
      = [0, 0, 1, 0, 0, 0, 1, 0]"
    by (simp add: example_push_def example_states_def cube_states_row_def)
  from store_proprio_hist_dims[OF h] d row show ?thesis by auto
qed

section \<open>Joint-velocity control: the integral accumulator\<close>

lemma vel_error_row_nth:
  "j < 7 \<Longrightarrow> j < length jvel \<Longrightarrow> j < length qd \<Longrightarrow>
   vel_error_row controlled jvel qd ! j
     = (if j \<in> set controlled then jvel ! j - qd ! j else 0 - qd ! j)"
  by (simp add: vel_error_row_def)

lemma length_vel_error_row:
  "length (vel_error_row controlled jvel qd) = min 7 (min (length jvel) (min (length qd) 7))"
  by (simp add: vel_error_row_def)

text \<open>
  Claim C2, as the code has it. A call of \<^verbatim>\<open>_compute_jvel_torques\<close> adds the
  velocity error of every joint (commanded minus measured velocity for the controlled
  joints, minus the measured velocity for the others) to the integral accumulator, so
  the accumulator of a joint with positive error strictly increases. A reset leaves
  the accumulator as it is: \<^verbatim>\<open>reset_idx\<close> never assigns \<^verbatim>\<open>vel_i_error\<close>.
\<close>

theorem integral_accumulator:
  assumes "i < length jvel" "i < length qd" "i < length (vel_i_error self)"
    and "j < 7" "j < length (jvel ! i)" "j < length (qd ! i)" "j < length (vel_i_error self ! i)"
  shows "vel_error_row (controlled_joints self) (jvel ! i) (qd ! i) ! j
        = (if j \<in> set (controlled_joints self) then jvel ! i ! j - qd ! i ! j else 0 - qd ! i ! j) \<and>
    vel_i_error (snd (compute_jvel_torques jvel qd self)) ! i ! j
        = vel_i_error self ! i ! j + vel_error_row (controlled_joints self) (jvel ! i) (qd ! i) ! j \<and>
    (0 < vel_error_row (controlled_joints self) (jvel ! i) (qd ! i) ! j \<longrightarrow>
       vel_i_error self ! i ! j < vel_i_error (snd (compute_jvel_torques jvel qd self)) ! i ! j) \<and>
    (reset_idx_throw ids noise self = Inr self' \<longrightarrow> vel_i_error self' = vel_i_error self)"
proof -
  have e: "vel_error_row (controlled_joints self) (jvel ! i) (qd ! i) ! j
        = (if j \<in> set (controlled_joints self) then jvel ! i ! j - qd ! i ! j else 0 - qd ! i ! j)"
    using assms by (simp add: vel_error_row_nth)
  have le: "j < length (vel_error_row (controlled_joints self) (jvel ! i) (qd ! i))"
    using assms by (simp add: length_vel_error_row)
  have acc: "vel_i_error (snd (compute_jvel_torques jvel qd self)) ! i ! j
        = vel_i_error self ! i ! j + vel_error_row (controlled_joints self) (jvel ! i) (qd ! i) ! j"
    using assms le by (simp add: compute_jvel_torques_fields)
  have rs: "vel_i_error self' = vel_i_error self" if "reset_idx_throw ids noise self = Inr self'"
    using reset_idx_throw_Inr(4)[OF that] .
  from e acc rs show ?thesis by simp
qed

theorem integral_accumulator_witness:
  "vel_i_error example_throw ! 0 ! 1
     < vel_i_error (snd (compute_jvel_torques [[0, 1, 0, 1, 0, 1, 0]] [replicate 9 0]
         example_throw)) ! 0 ! 1"
proof -
  have h: "0 < length [[0, 1, 0, 1, 0, 1, 0::real]]" "0 < length [replicate 9 (0::real)]"
    "0 < length (vel_i_error example_throw)" "(1::nat) < 7"
    "1 < length ([[0, 1, 0, 1, 0, 1, 0::real]] ! 0)" "1 < length ([replicate 9 (0::real)] ! 0)"
    "1 < length (vel_i_error example_throw ! 0)"
    by (simp_all add: example_throw_def)
  have c: "1 \<in> set (controlled_joints example_throw)" by (simp add: example_throw_def)
  from integral_accumulator[OF h, of "[0]" "\<lambda>k j. 0.5"] c show ?thesis by simp
qed

text \<open>
  Claim C2 as stated (after a reset the accumulator of every index of the set is
  zero) fails: one torque computation with commanded velocity 1 on joint 2 of a
  resting arm brings that joint's accumulator to 1, and it is still 1 after the
  reset of the environment.
\<close>

theorem integral_accumulator_counterexample:
  "map_sum id (\<lambda>t. vel_i_error t ! 0 ! 1)
     (reset_idx_throw [0] (\<lambda>k j. 0.5)
        (snd (compute_jvel_torques [[0, 1, 0, 1, 0, 1, 0]] [replicate 9 0] example_throw)))
   = Inr 1"
  by (simp add: reset_idx_throw_def compute_jvel_torques_def example_throw_def Let_def
      vel_error_row_def)

section \<open>The hold counter and the success flag\<close>












end
